theory Spec2Isabelle
  imports Complex_Main "HOL-Library.AList"
begin

section \<open>Readings\<close>

text \<open>
  \<^verbatim>\<open>sensors.SensorReading\<close> (a dataclass) and \<^verbatim>\<open>ml_model_simple.SimpleSensorReading\<close>
  carry the same six attributes. Python floats are idealised as real numbers, the
  timestamp as seconds on a clock.
\<close>

record SensorReading =
  timestamp :: nat
  tds :: real
  ph :: real
  orp :: real
  turbidity :: real
  temperature :: real

text \<open>
  The simplified module accepts a reading either as an object with attributes or as a
  dictionary (\<^verbatim>\<open>hasattr(reading, 'tds')\<close> decides).
\<close>

datatype reading_arg = Obj SensorReading | Dct "(string \<times> real) list"

definition dict_get :: "(string \<times> 'v) list \<Rightarrow> string \<Rightarrow> 'v \<Rightarrow> 'v" where
  "dict_get d k dflt = (case map_of d k of None \<Rightarrow> dflt | Some v \<Rightarrow> v)"

text \<open>
  \<^verbatim>\<open>round(x, 1)\<close>: one decimal, ties to the even neighbour (on real numbers).
\<close>

definition py_round1 :: "real \<Rightarrow> real" where
  "py_round1 x =
     (let y = x * 10; f = \<lfloor>y\<rfloor>; d = y - of_int f
      in (if d < 1 / 2 then of_int f
          else if d > 1 / 2 then of_int (f + 1)
          else if even f then of_int f else of_int (f + 1)) / 10)"

section \<open>Filter wear: \<^verbatim>\<open>SimpleFilterPredictor.predict_saturation\<close>\<close>

record filter_prediction =
  saturation_percent :: real
  days_until_replacement :: real
  replacement_needed :: bool
  confidence :: string

text \<open>The returned dictionary is either \<^verbatim>\<open>{"error": ...}\<close> or the four result keys.\<close>

datatype filter_analysis = FilterError string | FilterOk filter_prediction

text \<open>
  \<^verbatim>\<open>latest = readings[-1] if hasattr(readings[-1], 'tds') else SimpleSensorReading(
      datetime.now(), readings[-1].get('tds', 250), ...)\<close>
\<close>

definition latest_of :: "nat \<Rightarrow> reading_arg \<Rightarrow> SensorReading" where
  "latest_of now x =
     (case x of
        Obj r \<Rightarrow> r
      | Dct d \<Rightarrow>
          \<lparr>timestamp = now, tds = dict_get d ''tds'' 250, ph = dict_get d ''ph'' 7.2,
           orp = dict_get d ''orp'' 400, turbidity = dict_get d ''turbidity'' 0.3,
           temperature = dict_get d ''temperature'' 22\<rparr>)"

text \<open>
  The value drawn by \<^verbatim>\<open>random.uniform(-5, 5)\<close> is the argument \<open>jitter\<close>; \<open>now\<close> is
  what \<^verbatim>\<open>datetime.now()\<close> returns.
\<close>

definition predict_saturation ::
  "nat \<Rightarrow> real \<Rightarrow> reading_arg list \<Rightarrow> real \<Rightarrow> int \<Rightarrow> filter_analysis" where
  "predict_saturation now jitter readings filter_usage_hours days_since_replacement =
     (if readings = [] then FilterError ''No data available for prediction''
      else
        let latest = latest_of now (last readings);
            base0 = min (of_int days_since_replacement * 1.2) 90;
            base1 = (if tds latest > 300 then base0 + 10 else base0);
            base2 = (if turbidity latest > 0.5 then base1 + 15 else base1);
            base3 = (if ph latest < 6.5 \<or> ph latest > 8.5 then base2 + 5 else base2);
            saturation = min (base3 + jitter) 100;
            days_remaining = (if saturation < 80 then (80 - saturation) / 1.5 else 0)
        in FilterOk
             \<lparr>saturation_percent = py_round1 saturation,
              days_until_replacement = py_round1 days_remaining,
              replacement_needed = (saturation \<ge> 80),
              confidence = (if saturation > 20 then ''high'' else ''medium'')\<rparr>)"

definition clamp_0_100 :: "real \<Rightarrow> real" where
  "clamp_0_100 x = max 0 (min x 100)"

definition clean_reading :: SensorReading where
  "clean_reading =
     \<lparr>timestamp = 0, tds = 180, ph = 7.3, orp = 450, turbidity = 0.15, temperature = 22\<rparr>"

section \<open>Parameters, floats that need not be finite\<close>

text \<open>The five parameter names the loops of the analysis iterate over.\<close>

datatype param = TDS | PH | ORP | Turbidity | Temperature

definition getattr :: "SensorReading \<Rightarrow> param \<Rightarrow> real" where
  "getattr r p =
     (case p of TDS \<Rightarrow> tds r | PH \<Rightarrow> ph r | ORP \<Rightarrow> orp r
      | Turbidity \<Rightarrow> turbidity r | Temperature \<Rightarrow> temperature r)"

text \<open>
  A Python float is a finite number, an infinity or NaN. The analysis stages are
  modelled on finite values; the validator and the parser see every float.
\<close>

datatype float64 = Finite real | PosInf | NegInf | NaN

text \<open>Comparison of a float with a finite constant: every comparison with NaN is false.\<close>

fun float_lt :: "float64 \<Rightarrow> real \<Rightarrow> bool" where
  "float_lt (Finite v) c = (v < c)"
| "float_lt PosInf c = False"
| "float_lt NegInf c = True"
| "float_lt NaN c = False"

fun float_gt :: "float64 \<Rightarrow> real \<Rightarrow> bool" where
  "float_gt (Finite v) c = (v > c)"
| "float_gt PosInf c = True"
| "float_gt NegInf c = False"
| "float_gt NaN c = False"

fun is_finite :: "float64 \<Rightarrow> bool" where
  "is_finite (Finite v) = True"
| "is_finite _ = False"

text \<open>
  A \<^verbatim>\<open>SensorReading\<close> as the dataclass constructor builds it: all six fields are
  present, and nothing checks that a float is finite.
\<close>

record FloatReading =
  f_timestamp :: nat
  f_tds :: float64
  f_ph :: float64
  f_orp :: float64
  f_turbidity :: float64
  f_temperature :: float64

definition float_reading :: "SensorReading \<Rightarrow> FloatReading" where
  "float_reading r =
     \<lparr>f_timestamp = timestamp r, f_tds = Finite (tds r), f_ph = Finite (ph r),
      f_orp = Finite (orp r), f_turbidity = Finite (turbidity r),
      f_temperature = Finite (temperature r)\<rparr>"

definition well_formed :: "FloatReading \<Rightarrow> bool" where
  "well_formed r \<longleftrightarrow>
     is_finite (f_tds r) \<and> is_finite (f_ph r) \<and> is_finite (f_orp r)
     \<and> is_finite (f_turbidity r) \<and> is_finite (f_temperature r)"

section \<open>Validator: \<^verbatim>\<open>SensorManager.validate_reading\<close>\<close>

text \<open>
  The warnings dictionary is an association list in insertion order. The function has
  no \<^verbatim>\<open>raise\<close> and no check of its input.
\<close>

type_synonym warnings = "(param \<times> string) list"

text \<open>pH validation (WHO standards: 6.5-8.5)\<close>

definition validate_ph :: "FloatReading \<Rightarrow> warnings \<Rightarrow> warnings" where
  "validate_ph reading warnings =
     (if float_lt (f_ph reading) 6.5
      then AList.update PH ''pH too low - water is acidic'' warnings
      else if float_gt (f_ph reading) 8.5
      then AList.update PH ''pH too high - water is alkaline'' warnings
      else warnings)"

text \<open>TDS validation (WHO recommendation: below 600 ppm)\<close>

definition validate_tds :: "FloatReading \<Rightarrow> warnings \<Rightarrow> warnings" where
  "validate_tds reading warnings =
     (if float_gt (f_tds reading) 600
      then AList.update TDS ''TDS too high - excessive dissolved solids'' warnings
      else if float_lt (f_tds reading) 50
      then AList.update TDS ''TDS too low - may lack essential minerals'' warnings
      else warnings)"

text \<open>Turbidity validation (WHO standard: below 1 NTU)\<close>

definition validate_turbidity :: "FloatReading \<Rightarrow> warnings \<Rightarrow> warnings" where
  "validate_turbidity reading warnings =
     (if float_gt (f_turbidity reading) 1.0
      then AList.update Turbidity ''Turbidity too high - water appears cloudy'' warnings
      else warnings)"

text \<open>ORP validation\<close>

definition validate_orp :: "FloatReading \<Rightarrow> warnings \<Rightarrow> warnings" where
  "validate_orp reading warnings =
     (if float_lt (f_orp reading) 200
      then AList.update ORP ''ORP too low - poor disinfection potential'' warnings
      else if float_gt (f_orp reading) 800
      then AList.update ORP ''ORP too high - over-oxidized water'' warnings
      else warnings)"

text \<open>The four blocks of the function body, in their order, starting from \<^verbatim>\<open>{}\<close>.\<close>

definition validate_reading :: "FloatReading \<Rightarrow> warnings" where
  "validate_reading reading =
     validate_orp reading (validate_turbidity reading (validate_tds reading
       (validate_ph reading [])))"

section \<open>Parser: \<^verbatim>\<open>SensorManager._parse_sensor_response\<close>\<close>

text \<open>\<^verbatim>\<open>s.split(c)\<close> for a one-character separator: the result is never empty.\<close>

fun split_on :: "char \<Rightarrow> string \<Rightarrow> string list" where
  "split_on c [] = [[]]"
| "split_on c (x # xs) =
     (if x = c then [] # split_on c xs
      else (case split_on c xs of w # ws \<Rightarrow> (x # w) # ws | [] \<Rightarrow> [[x]]))"

text \<open>
  A response is a string of code points below 256 (the type \<open>char\<close>).
  \<^verbatim>\<open>str.strip()\<close> removes the characters for which \<^verbatim>\<open>str.isspace()\<close> holds: in
  this range the ASCII white space, the separators 0x1C to 0x1F, NEL (0x85) and the
  no-break space (0xA0).
\<close>

definition is_space :: "char \<Rightarrow> bool" where
  "is_space c \<longleftrightarrow> c \<in> set [CHR '' '', CHR 0x09, CHR 0x0A, CHR 0x0B, CHR 0x0C, CHR 0x0D,
                              CHR 0x1C, CHR 0x1D, CHR 0x1E, CHR 0x1F, CHR 0x85, CHR 0xA0]"

definition strip :: "string \<Rightarrow> string" where
  "strip s = rev (dropWhile is_space (rev (dropWhile is_space s)))"

text \<open>
  \<^verbatim>\<open>str.lower()\<close> in the same range: the letters A to Z, and the accented capitals
  0xC0 to 0xDE except the multiplication sign 0xD7, each move up by 0x20.
\<close>

definition upper_latin :: "char list" where
  "upper_latin =
     [CHR 0xC0, CHR 0xC1, CHR 0xC2, CHR 0xC3, CHR 0xC4, CHR 0xC5, CHR 0xC6, CHR 0xC7,
      CHR 0xC8, CHR 0xC9, CHR 0xCA, CHR 0xCB, CHR 0xCC, CHR 0xCD, CHR 0xCE, CHR 0xCF,
      CHR 0xD0, CHR 0xD1, CHR 0xD2, CHR 0xD3, CHR 0xD4, CHR 0xD5, CHR 0xD6,
      CHR 0xD8, CHR 0xD9, CHR 0xDA, CHR 0xDB, CHR 0xDC, CHR 0xDD, CHR 0xDE]"

definition lower_latin :: "char list" where
  "lower_latin =
     [CHR 0xE0, CHR 0xE1, CHR 0xE2, CHR 0xE3, CHR 0xE4, CHR 0xE5, CHR 0xE6, CHR 0xE7,
      CHR 0xE8, CHR 0xE9, CHR 0xEA, CHR 0xEB, CHR 0xEC, CHR 0xED, CHR 0xEE, CHR 0xEF,
      CHR 0xF0, CHR 0xF1, CHR 0xF2, CHR 0xF3, CHR 0xF4, CHR 0xF5, CHR 0xF6,
      CHR 0xF8, CHR 0xF9, CHR 0xFA, CHR 0xFB, CHR 0xFC, CHR 0xFD, CHR 0xFE]"

definition lower_char :: "char \<Rightarrow> char" where
  "lower_char c =
     (case map_of (zip (''ABCDEFGHIJKLMNOPQRSTUVWXYZ'' @ upper_latin)
                       (''abcdefghijklmnopqrstuvwxyz'' @ lower_latin)) c of
        Some l \<Rightarrow> l
      | None \<Rightarrow> c)"

definition lower :: "string \<Rightarrow> string" where
  "lower s = map lower_char s"

text \<open>
  The loop over the pairs. \<open>float\<close> is Python's built-in conversion, taken as a
  parameter: \<open>None\<close> is its \<^verbatim>\<open>ValueError\<close>. Unpacking
  \<^verbatim>\<open>key, value = pair.split(':')\<close> raises \<^verbatim>\<open>ValueError\<close> unless there are exactly
  two parts. \<open>None\<close> as the result of the loop is the exception that the enclosing
  \<^verbatim>\<open>except Exception\<close> catches.
\<close>

fun parse_pairs ::
  "(string \<Rightarrow> float64 option) \<Rightarrow> string list \<Rightarrow> (string \<times> float64) list
   \<Rightarrow> (string \<times> float64) list option" where
  "parse_pairs float [] data = Some data"
| "parse_pairs float (pair # pairs) data =
     (case split_on CHR '':'' pair of
        [key, val] \<Rightarrow>
          (case float (strip val) of
             None \<Rightarrow> None
           | Some v \<Rightarrow> parse_pairs float pairs (AList.update (lower (strip key)) v data))
      | _ \<Rightarrow> None)"

definition parse_sensor_response ::
  "(string \<Rightarrow> float64 option) \<Rightarrow> nat \<Rightarrow> string \<Rightarrow> FloatReading option" where
  "parse_sensor_response float now response =
     (case parse_pairs float (split_on CHR '','' response) [] of
        None \<Rightarrow> None
      | Some data \<Rightarrow>
          Some \<lparr>f_timestamp = now,
                f_tds = dict_get data ''tds'' (Finite 0.0),
                f_ph = dict_get data ''ph'' (Finite 7.0),
                f_orp = dict_get data ''orp'' (Finite 0.0),
                f_turbidity = dict_get data ''turb'' (Finite 0.0),
                f_temperature = dict_get data ''temp'' (Finite 20.0)\<rparr>)"

text \<open>
  The keys a response mentions, and whether every pair of it can be read
  (\<open>split_on\<close> never returns the empty list, so \<open>hd\<close> is defined).
\<close>

definition pair_key :: "string \<Rightarrow> string" where
  "pair_key pair = lower (strip (hd (split_on CHR '':'' pair)))"

definition response_keys :: "string \<Rightarrow> string list" where
  "response_keys response = map pair_key (split_on CHR '','' response)"

definition pair_ok :: "(string \<Rightarrow> float64 option) \<Rightarrow> string \<Rightarrow> bool" where
  "pair_ok float pair =
     (case split_on CHR '':'' pair of
        [key, val] \<Rightarrow> float (strip val) \<noteq> None
      | _ \<Rightarrow> False)"

text \<open>A stand-in for \<^verbatim>\<open>float\<close> that reads the three literals of the examples.\<close>

definition float_demo :: "string \<Rightarrow> float64 option" where
  "float_demo s =
     (if s = ''250.5'' then Some (Finite 250.5)
      else if s = ''7.2'' then Some (Finite 7.2)
      else if s = ''nan'' then Some NaN
      else None)"

section \<open>Anomaly detection: \<^verbatim>\<open>ml_model.AnomalyDetector\<close>\<close>

record baseline =
  mean :: real
  std :: real
  median :: real
  q25 :: real
  q75 :: real

text \<open>\<^verbatim>\<open>self.anomaly_thresholds[param]\<close> as the pair \<open>(min, max)\<close>.\<close>

definition anomaly_thresholds :: "param \<Rightarrow> real \<times> real" where
  "anomaly_thresholds p =
     (case p of TDS \<Rightarrow> (50, 800) | PH \<Rightarrow> (6.0, 9.0) | ORP \<Rightarrow> (100, 900)
      | Turbidity \<Rightarrow> (0, 5.0) | Temperature \<Rightarrow> (10, 35))"

text \<open>
  The statistics come from numpy, so the quotient in the message of the three-sigma
  check is a division of \<^verbatim>\<open>numpy.float64\<close> values: by zero it gives an infinity or NaN
  and a \<^verbatim>\<open>RuntimeWarning\<close>, where Python's own floats would raise
  \<^verbatim>\<open>ZeroDivisionError\<close>.
\<close>

definition np_div :: "real \<Rightarrow> real \<Rightarrow> float64" where
  "np_div x y =
     (if y = 0 then (if x > 0 then PosInf else if x < 0 then NegInf else NaN)
      else Finite (x / y))"

text \<open>The messages are format strings; each constructor carries the values formatted.\<close>

datatype anomaly_message =
    OutsideNormalRange real real real
  | StdDevFromNormal real float64
  | DifferentFromTypical real
  | SimpleOutside param real

type_synonym anomalies = "(param \<times> anomaly_message) list"

type_synonym baseline_stats = "(param \<times> baseline) list"

text \<open>The three-sigma and the median checks of one parameter, in the order of the code.\<close>

definition sigma_check :: "param \<Rightarrow> real \<Rightarrow> baseline \<Rightarrow> anomalies \<Rightarrow> anomalies" where
  "sigma_check p v stats anomalies =
     (if \<bar>v - mean stats\<bar> > 3 * std stats
      then AList.update p (StdDevFromNormal v (np_div \<bar>v - mean stats\<bar> (std stats))) anomalies
      else anomalies)"

definition iqr_check :: "param \<Rightarrow> real \<Rightarrow> baseline \<Rightarrow> anomalies \<Rightarrow> anomalies" where
  "iqr_check p v stats anomalies =
     (let iqr = q75 stats - q25 stats
      in if \<bar>v - median stats\<bar> > 2 * iqr
         then AList.update p (DifferentFromTypical v) anomalies
         else anomalies)"

text \<open>One pass of the loop body of \<^verbatim>\<open>detect_anomalies\<close>.\<close>

definition detect_param ::
  "baseline_stats \<Rightarrow> SensorReading \<Rightarrow> anomalies \<Rightarrow> param \<Rightarrow> anomalies" where
  "detect_param stats_dict reading anomalies p =
     (let v = getattr reading p; (lo, hi) = anomaly_thresholds p
      in if v < lo \<or> v > hi then AList.update p (OutsideNormalRange v lo hi) anomalies
         else (case map_of stats_dict p of
                 None \<Rightarrow> anomalies
               | Some stats \<Rightarrow> iqr_check p v stats (sigma_check p v stats anomalies)))"

definition all_params :: "param list" where
  "all_params = [TDS, PH, ORP, Turbidity, Temperature]"

definition detect_anomalies :: "baseline_stats \<Rightarrow> SensorReading \<Rightarrow> anomalies" where
  "detect_anomalies stats_dict reading = foldl (detect_param stats_dict reading) [] all_params"

text \<open>
  The numpy reductions used by \<^verbatim>\<open>update_baseline\<close>: mean, population standard
  deviation, median, and the percentile with linear interpolation between the two
  nearest ranks. \<^verbatim>\<open>update_baseline\<close> applies them to at least ten values; what numpy
  returns on an empty list (NaN) is not modelled.
\<close>

definition np_mean :: "real list \<Rightarrow> real" where
  "np_mean xs = sum_list xs / real (length xs)"

definition np_std :: "real list \<Rightarrow> real" where
  "np_std xs = sqrt (sum_list (map (\<lambda>x. (x - np_mean xs)\<^sup>2) xs) / real (length xs))"

definition np_percentile :: "real list \<Rightarrow> real \<Rightarrow> real" where
  "np_percentile xs q =
     (let s = sort xs; pos = q / 100 * real (length xs - 1);
          lo = nat \<lfloor>pos\<rfloor>; hi = min (lo + 1) (length xs - 1)
      in s ! lo + (pos - real lo) * (s ! hi - s ! lo))"

definition np_median :: "real list \<Rightarrow> real" where
  "np_median xs =
     (let s = sort xs; n = length xs
      in if odd n then s ! (n div 2) else (s ! (n div 2 - 1) + s ! (n div 2)) / 2)"

text \<open>\<^verbatim>\<open>readings[-50:]\<close>\<close>

definition last50 :: "'a list \<Rightarrow> 'a list" where
  "last50 xs = drop (length xs - 50) xs"

definition compute_baseline :: "real list \<Rightarrow> baseline" where
  "compute_baseline vals =
     \<lparr>mean = np_mean vals, std = np_std vals, median = np_median vals,
      q25 = np_percentile vals 25, q75 = np_percentile vals 75\<rparr>"

definition update_param :: "SensorReading list \<Rightarrow> baseline_stats \<Rightarrow> param \<Rightarrow> baseline_stats" where
  "update_param readings stats_dict p =
     (let vals = map (\<lambda>r. getattr r p) (last50 readings)
      in AList.update p (compute_baseline vals) stats_dict)"

definition update_baseline :: "SensorReading list \<Rightarrow> baseline_stats \<Rightarrow> baseline_stats" where
  "update_baseline readings stats_dict =
     (if length readings < 10 then stats_dict
      else foldl (update_param readings) stats_dict all_params)"

text \<open>What the absolute thresholds alone say about one parameter.\<close>

definition absolute_check :: "param \<Rightarrow> real \<Rightarrow> anomaly_message option" where
  "absolute_check p v =
     (let (lo, hi) = anomaly_thresholds p
      in if v < lo \<or> v > hi then Some (OutsideNormalRange v lo hi) else None)"

text \<open>
  What one pass of the loop body records for its own parameter when it starts from
  the empty dictionary.
\<close>

definition param_verdict :: "baseline_stats \<Rightarrow> SensorReading \<Rightarrow> param \<Rightarrow> anomaly_message option" where
  "param_verdict stats_dict reading p = map_of (detect_param stats_dict reading [] p) p"

text \<open>A history of ten identical readings, and the statistics numpy computes from it.\<close>

definition steady_reading :: SensorReading where
  "steady_reading =
     \<lparr>timestamp = 0, tds = 200, ph = 7.2, orp = 450, turbidity = 0.2, temperature = 22\<rparr>"

definition steady_history :: "SensorReading list" where
  "steady_history =
     [steady_reading, steady_reading, steady_reading, steady_reading, steady_reading,
      steady_reading, steady_reading, steady_reading, steady_reading, steady_reading]"

definition flat_200 :: baseline where
  "flat_200 = \<lparr>mean = 200, std = 0, median = 200, q25 = 200, q75 = 200\<rparr>"

section \<open>Anomaly detection: \<^verbatim>\<open>ml_model_simple.SimpleAnomalyDetector\<close>\<close>

definition attr_or :: "reading_arg \<Rightarrow> (SensorReading \<Rightarrow> real) \<Rightarrow> string \<Rightarrow> real \<Rightarrow> real" where
  "attr_or x field key dflt = (case x of Obj r \<Rightarrow> field r | Dct d \<Rightarrow> dict_get d key dflt)"

definition simple_detect_anomalies :: "reading_arg \<Rightarrow> anomalies" where
  "simple_detect_anomalies reading =
     (let anomalies = [];
          tds_v = attr_or reading tds ''tds'' 0;
          ph_v = attr_or reading ph ''ph'' 7.0;
          orp_v = attr_or reading orp ''orp'' 0;
          turbidity_v = attr_or reading turbidity ''turbidity'' 0;
          anomalies = (if tds_v < 50 \<or> tds_v > 800
                       then AList.update TDS (SimpleOutside TDS tds_v) anomalies else anomalies);
          anomalies = (if ph_v < 6.0 \<or> ph_v > 9.0
                       then AList.update PH (SimpleOutside PH ph_v) anomalies else anomalies);
          anomalies = (if orp_v < 100 \<or> orp_v > 900
                       then AList.update ORP (SimpleOutside ORP orp_v) anomalies else anomalies);
          anomalies = (if turbidity_v > 5.0
                       then AList.update Turbidity (SimpleOutside Turbidity turbidity_v) anomalies
                       else anomalies)
      in anomalies)"

section \<open>Quality scoring: \<^verbatim>\<open>ml_model_simple.SimpleWaterQualityOptimizer\<close>\<close>

type_synonym action = "(string \<times> string) list"

record optimization =
  recommendations :: "string list"
  actions :: "action list"
  quality_score :: real
  overall_status :: string

definition simple_tds_score :: "real \<Rightarrow> real" where
  "simple_tds_score v = (if 150 \<le> v \<and> v \<le> 300 then 100 else max 0 (100 - \<bar>v - 225\<bar> / 2))"

definition simple_ph_score :: "real \<Rightarrow> real" where
  "simple_ph_score v = (if 6.5 \<le> v \<and> v \<le> 8.5 then 100 else max 0 (100 - \<bar>v - 7.2\<bar> * 20))"

definition simple_orp_score :: "real \<Rightarrow> real" where
  "simple_orp_score v = (if 300 \<le> v \<and> v \<le> 600 then 100 else max 0 (100 - \<bar>v - 450\<bar> / 5))"

definition simple_turb_score :: "real \<Rightarrow> real" where
  "simple_turb_score v = (if v \<le> 1.0 then 100 else max 0 (100 - (v - 1.0) * 50))"

definition simple_calculate_quality_score :: "real \<Rightarrow> real \<Rightarrow> real \<Rightarrow> real \<Rightarrow> real" where
  "simple_calculate_quality_score tds_v ph_v orp_v turbidity_v =
     (let scores = [simple_tds_score tds_v, simple_ph_score ph_v, simple_orp_score orp_v,
                    simple_turb_score turbidity_v]
      in py_round1 (sum_list scores / real (length scores)))"

definition get_overall_status :: "real \<Rightarrow> string" where
  "get_overall_status score =
     (if score \<ge> 90 then ''excellent''
      else if score \<ge> 80 then ''good''
      else if score \<ge> 70 then ''acceptable''
      else if score \<ge> 60 then ''poor''
      else ''critical'')"

definition simple_get_optimization_recommendations :: "reading_arg \<Rightarrow> optimization" where
  "simple_get_optimization_recommendations reading =
     (let tds_v = attr_or reading tds ''tds'' 250;
          ph_v = attr_or reading ph ''ph'' 7.2;
          orp_v = attr_or reading orp ''orp'' 400;
          turbidity_v = attr_or reading turbidity ''turbidity'' 0.3;
          ra = ([], []);
          ra = (if tds_v > 300
                then (fst ra @ [''TDS high - increase RO filtration''],
                      snd ra @ [[(''type'', ''filter_adjustment''), (''parameter'', ''ro_pressure''),
                                 (''change'', ''+10%'')]])
                else if tds_v < 150
                then (fst ra @ [''TDS low - add mineral cartridge''],
                      snd ra @ [[(''type'', ''filter_adjustment''),
                                 (''parameter'', ''mineral_addition''), (''change'', ''enable'')]])
                else ra);
          ra = (if ph_v > 8.5
                then (fst ra @ [''pH high - activate acid injection''],
                      snd ra @ [[(''type'', ''chemical_dosing''), (''chemical'', ''acid''),
                                 (''amount'', ''low'')]])
                else if ph_v < 6.5
                then (fst ra @ [''pH low - activate alkaline injection''],
                      snd ra @ [[(''type'', ''chemical_dosing''), (''chemical'', ''alkaline''),
                                 (''amount'', ''low'')]])
                else ra);
          ra = (if orp_v < 300
                then (fst ra @ [''ORP low - increase disinfection''],
                      snd ra @ [[(''type'', ''disinfection''), (''method'', ''chlorine''),
                                 (''change'', ''+20%'')]])
                else ra);
          ra = (if turbidity_v > 1.0
                then (fst ra @ [''Turbidity high - backwash filters''],
                      snd ra @ [[(''type'', ''filter_maintenance''), (''action'', ''backwash'')]])
                else ra);
          recs = (if fst ra = [] then [''Water quality within optimal ranges''] else fst ra);
          score = simple_calculate_quality_score tds_v ph_v orp_v turbidity_v
      in \<lparr>recommendations = recs, actions = snd ra, quality_score = score,
          overall_status = get_overall_status score\<rparr>)"

section \<open>Quality scoring: \<^verbatim>\<open>ml_model.WaterQualityOptimizer\<close>\<close>

datatype py_error = ZeroDivisionError | KeyError | OverflowError

text \<open>
  \<^verbatim>\<open>self.target_ranges[param]\<close> as the triple \<open>(min, max, optimal)\<close>; the dictionary
  has no entry for the temperature.
\<close>

definition target_ranges :: "param \<Rightarrow> (real \<times> real \<times> real) option" where
  "target_ranges p =
     (case p of TDS \<Rightarrow> Some (150, 300, 225) | PH \<Rightarrow> Some (6.5, 8.5, 7.2)
      | ORP \<Rightarrow> Some (300, 600, 450) | Turbidity \<Rightarrow> Some (0, 1.0, 0.2)
      | Temperature \<Rightarrow> None)"

text \<open>Division of Python floats raises on a zero divisor.\<close>

definition py_div :: "real \<Rightarrow> real \<Rightarrow> py_error + real" where
  "py_div x y = (if y = 0 then Inl ZeroDivisionError else Inr (x / y))"

definition map_result :: "('a \<Rightarrow> 'b) \<Rightarrow> py_error + 'a \<Rightarrow> py_error + 'b" where
  "map_result f x = (case x of Inl e \<Rightarrow> Inl e | Inr v \<Rightarrow> Inr (f v))"

definition param_score :: "param \<Rightarrow> real \<Rightarrow> py_error + real" where
  "param_score p v =
     (case target_ranges p of
        None \<Rightarrow> Inl KeyError
      | Some (lo, hi, optimal) \<Rightarrow>
          if v = optimal then Inr 100
          else if lo \<le> v \<and> v \<le> hi then
            (if v < optimal
             then map_result (\<lambda>q. 80 + q) (py_div (20 * (v - lo)) (optimal - lo))
             else map_result (\<lambda>q. 80 + q) (py_div (20 * (hi - v)) (hi - optimal)))
          else
            (if v < lo
             then map_result (\<lambda>q. max 0 (80 * q)) (py_div v lo)
             else map_result (\<lambda>q. max 0 (80 * q)) (py_div hi v)))"

definition scored_params :: "param list" where
  "scored_params = [TDS, PH, ORP, Turbidity]"

fun collect_scores :: "SensorReading \<Rightarrow> param list \<Rightarrow> py_error + real list" where
  "collect_scores reading [] = Inr []"
| "collect_scores reading (p # ps) =
     (case param_score p (getattr reading p) of
        Inl e \<Rightarrow> Inl e
      | Inr sc \<Rightarrow> map_result (\<lambda>rest. sc # rest) (collect_scores reading ps))"

definition calculate_quality_score :: "SensorReading \<Rightarrow> py_error + real" where
  "calculate_quality_score reading =
     map_result (\<lambda>scores. py_round1 (np_mean scores)) (collect_scores reading scored_params)"

definition overall_status_of :: "SensorReading \<Rightarrow> py_error + string" where
  "overall_status_of reading = map_result get_overall_status (calculate_quality_score reading)"

text \<open>
  The comparisons against \<^verbatim>\<open>self.target_ranges['tds']['max']\<close> and its like are
  written with the constants those lookups give.
\<close>

definition get_optimization_recommendations :: "SensorReading \<Rightarrow> py_error + optimization" where
  "get_optimization_recommendations reading =
     (let ra = ([], []);
          ra = (if tds reading > 300
                then (fst ra @ [''TDS too high - increase reverse osmosis pressure''],
                      snd ra @ [[(''type'', ''filter_adjustment''), (''parameter'', ''ro_pressure''),
                                 (''change'', ''+10%'')]])
                else if tds reading < 150
                then (fst ra @ [''TDS too low - add mineral cartridge or reduce filtration''],
                      snd ra @ [[(''type'', ''filter_adjustment''),
                                 (''parameter'', ''mineral_addition''), (''change'', ''enable'')]])
                else ra);
          ra = (if ph reading > 8.5
                then (fst ra @ [''pH too high - activate acid injection system''],
                      snd ra @ [[(''type'', ''chemical_dosing''), (''chemical'', ''acid''),
                                 (''amount'', ''low'')]])
                else if ph reading < 6.5
                then (fst ra @ [''pH too low - activate alkaline injection system''],
                      snd ra @ [[(''type'', ''chemical_dosing''), (''chemical'', ''alkaline''),
                                 (''amount'', ''low'')]])
                else ra);
          ra = (if orp reading < 300
                then (fst ra @ [''ORP too low - increase chlorination or ozonation''],
                      snd ra @ [[(''type'', ''disinfection''), (''method'', ''chlorine''),
                                 (''change'', ''+20%'')]])
                else if orp reading > 600
                then (fst ra @ [''ORP too high - reduce disinfectant dosing''],
                      snd ra @ [[(''type'', ''disinfection''), (''method'', ''chlorine''),
                                 (''change'', ''-15%'')]])
                else ra);
          ra = (if turbidity reading > 1.0
                then (fst ra @ [''Turbidity too high - backwash filters or replace cartridges''],
                      snd ra @ [[(''type'', ''filter_maintenance''), (''action'', ''backwash'')]])
                else ra);
          recs = (if fst ra = [] then [''Water quality within optimal ranges''] else fst ra)
      in case calculate_quality_score reading of
           Inl e \<Rightarrow> Inl e
         | Inr score \<Rightarrow>
             map_result
               (\<lambda>status. \<lparr>recommendations = recs, actions = snd ra, quality_score = score,
                           overall_status = status\<rparr>)
               (overall_status_of reading))"

section \<open>Alerts and the analysis entry points\<close>

datatype alert_message =
    FilterReplacementNeeded real
  | FilterSaturationAt real
  | AnomalyDetectedIn param anomaly_message
  | QualityBelowAcceptable real
  | AnomalyIn param anomaly_message
  | QualityBelowTarget real

record alert =
  alert_type :: string
  severity :: string
  message :: alert_message

text \<open>
  \<^verbatim>\<open>filter_analysis.get("replacement_needed")\<close> and
  \<^verbatim>\<open>filter_analysis.get("saturation_percent", 0)\<close>: the error dictionary has neither key.
\<close>

definition get_replacement_needed :: "filter_analysis \<Rightarrow> bool" where
  "get_replacement_needed fa =
     (case fa of FilterError e \<Rightarrow> False | FilterOk p \<Rightarrow> replacement_needed p)"

definition get_saturation_percent :: "filter_analysis \<Rightarrow> real" where
  "get_saturation_percent fa =
     (case fa of FilterError e \<Rightarrow> 0 | FilterOk p \<Rightarrow> saturation_percent p)"

text \<open>\<^verbatim>\<open>ml_model._generate_alerts\<close>\<close>

definition generate_alerts :: "filter_analysis \<Rightarrow> anomalies \<Rightarrow> optimization \<Rightarrow> alert list" where
  "generate_alerts fa anoms opt =
     (let alerts = [];
          alerts =
            (if get_replacement_needed fa
             then alerts @ [\<lparr>alert_type = ''filter_replacement'', severity = ''high'',
                             message = FilterReplacementNeeded (get_saturation_percent fa)\<rparr>]
             else if get_saturation_percent fa > 60
             then alerts @ [\<lparr>alert_type = ''filter_warning'', severity = ''medium'',
                             message = FilterSaturationAt (get_saturation_percent fa)\<rparr>]
             else alerts);
          alerts =
            alerts @ map (\<lambda>(p, m). \<lparr>alert_type = ''sensor_anomaly'', severity = ''high'',
                                      message = AnomalyDetectedIn p m\<rparr>) anoms;
          alerts =
            (if quality_score opt < 70
             then alerts @ [\<lparr>alert_type = ''water_quality'', severity = ''medium'',
                             message = QualityBelowAcceptable (quality_score opt)\<rparr>]
             else alerts)
      in alerts)"

record analysis =
  a_timestamp :: nat
  filter_analysis_of :: filter_analysis
  anomalies_of :: anomalies
  optimization_of :: optimization
  alerts_of :: "alert list"

text \<open>The entry points return \<^verbatim>\<open>{"error": ...}\<close> or the full report.\<close>

datatype 'r analysis_result = AnalysisError string | Analysis 'r analysis

text \<open>
  \<^verbatim>\<open>ml_model.analyze_water_quality\<close>. The state is the detector's
  \<^verbatim>\<open>baseline_stats\<close>; the trained regression behind
  \<^verbatim>\<open>FilterSaturationPredictor.predict_saturation\<close> is the parameter \<open>predictor\<close>.
  The report's \<^verbatim>\<open>current_readings\<close> is the latest reading itself.
\<close>

definition analyze_water_quality ::
  "(SensorReading list \<Rightarrow> real \<Rightarrow> int \<Rightarrow> filter_analysis) \<Rightarrow> SensorReading list \<Rightarrow> real \<Rightarrow> int
   \<Rightarrow> baseline_stats \<Rightarrow> (py_error + SensorReading analysis_result) \<times> baseline_stats" where
  "analyze_water_quality predictor readings filter_usage_hours days_since_replacement stats_dict =
     (if readings = [] then (Inr (AnalysisError ''No sensor readings provided''), stats_dict)
      else
        let latest_reading = last readings;
            stats_dict = update_baseline readings stats_dict;
            fa = predictor readings filter_usage_hours days_since_replacement;
            anoms = detect_anomalies stats_dict latest_reading
        in (map_result
              (\<lambda>opt. Analysis latest_reading
                 \<lparr>a_timestamp = timestamp latest_reading, filter_analysis_of = fa,
                  anomalies_of = anoms, optimization_of = opt,
                  alerts_of = generate_alerts fa anoms opt\<rparr>)
              (get_optimization_recommendations latest_reading),
            stats_dict))"

text \<open>
  \<^verbatim>\<open>ml_model_simple.analyze_water_quality\<close>, the one \<^verbatim>\<open>main.py\<close> imports. Its detector
  keeps no statistics, so there is no state to pass.
\<close>

definition simple_analyze_water_quality ::
  "nat \<Rightarrow> real \<Rightarrow> reading_arg list \<Rightarrow> real \<Rightarrow> int \<Rightarrow> reading_arg analysis_result" where
  "simple_analyze_water_quality now jitter readings filter_usage_hours days_since_replacement =
     (if readings = [] then AnalysisError ''No sensor readings provided''
      else
        let latest_reading = last readings;
            fa = predict_saturation now jitter readings filter_usage_hours days_since_replacement;
            anoms = simple_detect_anomalies latest_reading;
            opt = simple_get_optimization_recommendations latest_reading;
            alerts = [];
            alerts =
              (if get_replacement_needed fa
               then alerts @ [\<lparr>alert_type = ''filter_replacement'', severity = ''high'',
                               message = FilterReplacementNeeded (get_saturation_percent fa)\<rparr>]
               else alerts);
            alerts =
              alerts @ map (\<lambda>(p, m). \<lparr>alert_type = ''sensor_anomaly'', severity = ''high'',
                                        message = AnomalyIn p m\<rparr>) anoms;
            alerts =
              (if quality_score opt < 70
               then alerts @ [\<lparr>alert_type = ''water_quality'', severity = ''medium'',
                               message = QualityBelowTarget (quality_score opt)\<rparr>]
               else alerts)
        in Analysis latest_reading
             \<lparr>a_timestamp = now, filter_analysis_of = fa, anomalies_of = anoms,
              optimization_of = opt, alerts_of = alerts\<rparr>)"

definition has_alert :: "string \<Rightarrow> string \<Rightarrow> alert list \<Rightarrow> bool" where
  "has_alert ty sev alerts = (\<exists>a \<in> set alerts. alert_type a = ty \<and> severity a = sev)"

section \<open>The monitoring loops\<close>

text \<open>
  A loop is run against a finite trace of what its environment does: one entry per
  iteration, saying how the body ended and whether the running flag was cleared while
  the iteration was in flight. When the trace is used up the loop is either still
  running, about to start its next iteration, or it has returned.
  Exceptions are those of class \<^verbatim>\<open>Exception\<close>; a cancelled task is not one.
\<close>

datatype body_outcome =
    NoReading
  | Processed
  | AnalysisFailed
  | Raised

record tick =
  outcome :: body_outcome
  stop_requested :: bool

datatype log_entry = MLAnalysisError | BackgroundMonitoringError | ErrorDuringMonitoring

record loop_state =
  running_flag :: bool
  slept :: "nat list"
  logged :: "log_entry list"
  serial_closed :: bool

datatype loop_result = StillRunning loop_state | Returned loop_state

definition observe_stop :: "tick \<Rightarrow> loop_state \<Rightarrow> loop_state" where
  "observe_stop t s = (if stop_requested t then s\<lparr>running_flag := False\<rparr> else s)"

text \<open>
  \<^verbatim>\<open>main.background_monitoring\<close>: the \<^verbatim>\<open>try\<close> is inside the \<^verbatim>\<open>while\<close>. A failure of
  the periodic analysis is caught by the inner handler and the iteration goes on to
  its 30 second sleep; any other exception reaches the outer handler, which logs and
  sleeps 60 seconds.
\<close>

fun background_loop :: "tick list \<Rightarrow> loop_state \<Rightarrow> loop_result" where
  "background_loop [] s = (if running_flag s then StillRunning s else Returned s)"
| "background_loop (t # ts) s =
     (if \<not> running_flag s then Returned s
      else
        let s1 = (case outcome t of
                    NoReading \<Rightarrow> s\<lparr>slept := slept s @ [30]\<rparr>
                  | Processed \<Rightarrow> s\<lparr>slept := slept s @ [30]\<rparr>
                  | AnalysisFailed \<Rightarrow>
                      s\<lparr>logged := logged s @ [MLAnalysisError], slept := slept s @ [30]\<rparr>
                  | Raised \<Rightarrow>
                      s\<lparr>logged := logged s @ [BackgroundMonitoringError],
                        slept := slept s @ [60]\<rparr>)
        in background_loop ts (observe_stop t s1))"

definition background_monitoring :: "tick list \<Rightarrow> loop_result" where
  "background_monitoring trace =
     background_loop trace \<lparr>running_flag = True, slept = [], logged = [], serial_closed = False\<rparr>"

text \<open>
  \<^verbatim>\<open>SensorManager.start_monitoring\<close>: the \<^verbatim>\<open>while\<close> is inside the \<^verbatim>\<open>try\<close>. An
  exception in the body is logged by the handler around the loop, the \<^verbatim>\<open>finally\<close>
  clause closes the serial connection, and the function returns; neither clause
  touches \<^verbatim>\<open>is_running\<close>, so it is false only if \<^verbatim>\<open>stop_monitoring\<close> cleared it while
  the iteration was in flight.
\<close>

fun sensor_loop :: "nat \<Rightarrow> tick list \<Rightarrow> loop_state \<Rightarrow> loop_result" where
  "sensor_loop interval [] s =
     (if running_flag s then StillRunning s else Returned (s\<lparr>serial_closed := True\<rparr>))"
| "sensor_loop interval (t # ts) s =
     (if \<not> running_flag s then Returned (s\<lparr>serial_closed := True\<rparr>)
      else
        (case outcome t of
           Raised \<Rightarrow>
             Returned (observe_stop t
               (s\<lparr>logged := logged s @ [ErrorDuringMonitoring], serial_closed := True\<rparr>))
         | _ \<Rightarrow> sensor_loop interval ts (observe_stop t (s\<lparr>slept := slept s @ [interval]\<rparr>))))"

definition start_monitoring :: "nat \<Rightarrow> tick list \<Rightarrow> loop_result" where
  "start_monitoring interval trace =
     sensor_loop interval trace
       \<lparr>running_flag = True, slept = [], logged = [], serial_closed = False\<rparr>"

definition is_running :: "loop_result \<Rightarrow> bool" where
  "is_running r = (case r of StillRunning s \<Rightarrow> True | Returned s \<Rightarrow> False)"

text \<open>The sleep and the log entries one iteration of the background loop leaves.\<close>

definition sleep_after :: "tick \<Rightarrow> nat" where
  "sleep_after t = (if outcome t = Raised then 60 else 30)"

definition log_of :: "tick \<Rightarrow> log_entry list" where
  "log_of t =
     (case outcome t of
        Raised \<Rightarrow> [BackgroundMonitoringError]
      | AnalysisFailed \<Rightarrow> [MLAnalysisError]
      | _ \<Rightarrow> [])"

definition two_failures :: "tick list" where
  "two_failures = [\<lparr>outcome = Raised, stop_requested = False\<rparr>,
                   \<lparr>outcome = Raised, stop_requested = False\<rparr>]"




text \<open>A reading in which no float is a number.\<close>

definition nan_reading :: FloatReading where
  "nan_reading =
     \<lparr>f_timestamp = 0, f_tds = NaN, f_ph = NaN, f_orp = NaN, f_turbidity = NaN,
      f_temperature = NaN\<rparr>"

section \<open>Binary floating point\<close>

text \<open>
  The definitions above compute on real numbers, which is what the program does
  wherever every intermediate result is itself a float. Where a property depends on
  how results are rounded, the functions are given again with the rounding explicit:
  \<open>fl\<close> maps the exact result of one arithmetic operation to the float the operation
  returns, and \<open>round1\<close> is \<^verbatim>\<open>round(x, 1)\<close>. Comparisons are exact. Infinities and NaN
  are not values of these definitions.
\<close>

definition round_half_even :: "real \<Rightarrow> int" where
  "round_half_even y =
     (let f = \<lfloor>y\<rfloor>; d = y - of_int f
      in if d < 1 / 2 then f else if d > 1 / 2 then f + 1 else if even f then f else f + 1)"

text \<open>
  The nearest binary64 number, ties to the even significand: 53 significant bits, and
  the fixed spacing of the subnormal numbers below \<open>2 powr - 1022\<close>.
\<close>

definition fl64 :: "real \<Rightarrow> real" where
  "fl64 x =
     (if x = 0 then 0
      else let e = max \<lfloor>log 2 \<bar>x\<bar>\<rfloor> (- 1022); u = 2 powr (of_int e - 52)
           in of_int (round_half_even (x / u)) * u)"

text \<open>
  \<^verbatim>\<open>round(x, 1)\<close> of a float: the exact value is rounded to one decimal, ties to even,
  and the float nearest to that decimal is returned.
\<close>

definition round1_64 :: "real \<Rightarrow> real" where
  "round1_64 x = fl64 (py_round1 x)"

text \<open>
  An \<^verbatim>\<open>int\<close> operand of a float operation is converted first; the conversion raises
  \<^verbatim>\<open>OverflowError\<close> when the integer rounds to a magnitude of \<open>2 ^ 1024\<close> or more.
\<close>

definition overflow_bound :: int where
  "overflow_bound = 2 ^ 1024 - 2 ^ 970"

definition float_of_int :: "(real \<Rightarrow> real) \<Rightarrow> int \<Rightarrow> py_error + real" where
  "float_of_int fl n =
     (if \<bar>n\<bar> \<ge> overflow_bound then Inl OverflowError else Inr (fl (of_int n)))"

text \<open>
  \<^verbatim>\<open>SimpleFilterPredictor.predict_saturation\<close> with every float operation rounded:
  the literal \<^verbatim>\<open>1.2\<close> is the float \<open>fl 1.2\<close>, \<^verbatim>\<open>days_since_replacement * 1.2\<close> converts
  the integer and rounds the product, each \<^verbatim>\<open>+=\<close> and the addition of the random term
  round their sums.
\<close>

definition predict_saturation_fl ::
  "(real \<Rightarrow> real) \<Rightarrow> (real \<Rightarrow> real) \<Rightarrow> nat \<Rightarrow> real \<Rightarrow> reading_arg list \<Rightarrow> real \<Rightarrow> int
   \<Rightarrow> py_error + filter_analysis" where
  "predict_saturation_fl fl round1 now jitter readings filter_usage_hours days_since_replacement =
     (if readings = [] then Inr (FilterError ''No data available for prediction'')
      else
        (case float_of_int fl days_since_replacement of
           Inl e \<Rightarrow> Inl e
         | Inr days \<Rightarrow>
             let latest = latest_of now (last readings);
                 base0 = min (fl (days * fl 1.2)) 90;
                 base1 = (if tds latest > 300 then fl (base0 + 10) else base0);
                 base2 = (if turbidity latest > 0.5 then fl (base1 + 15) else base1);
                 base3 = (if ph latest < 6.5 \<or> ph latest > 8.5 then fl (base2 + 5) else base2);
                 saturation = min (fl (base3 + jitter)) 100;
                 days_remaining =
                   (if saturation < 80 then fl (fl (80 - saturation) / 1.5) else 0)
             in Inr (FilterOk
                  \<lparr>saturation_percent = round1 saturation,
                   days_until_replacement = round1 days_remaining,
                   replacement_needed = (saturation \<ge> 80),
                   confidence = (if saturation > 20 then ''high'' else ''medium'')\<rparr>)))"

text \<open>
  The wear model in the words of the specification, on floats: the linear baseline
  capped at 90, then the penalties that apply, added one after the other. \<open>days\<close> is
  the number of days as a float.
\<close>

definition spec_penalties :: "SensorReading \<Rightarrow> real list" where
  "spec_penalties latest =
     (if tds latest > 300 then [10] else [])
     @ (if turbidity latest > 0.5 then [15] else [])
     @ (if ph latest < 6.5 \<or> ph latest > 8.5 then [5] else [])"

definition spec_wear_fl :: "(real \<Rightarrow> real) \<Rightarrow> real \<Rightarrow> SensorReading \<Rightarrow> real" where
  "spec_wear_fl fl days latest =
     foldl (\<lambda>w k. fl (w + k)) (min (fl (days * fl 1.2)) 90) (spec_penalties latest)"

text \<open>
  The two statistical checks of \<^verbatim>\<open>AnomalyDetector.detect_anomalies\<close> with their float
  operations rounded: the differences, the products \<^verbatim>\<open>3 * std\<close> and \<^verbatim>\<open>2 * iqr\<close>, and the
  quotient in the message.
\<close>

definition np_div_fl :: "(real \<Rightarrow> real) \<Rightarrow> real \<Rightarrow> real \<Rightarrow> float64" where
  "np_div_fl fl x y =
     (if y = 0 then (if x > 0 then PosInf else if x < 0 then NegInf else NaN)
      else Finite (fl (x / y)))"

definition sigma_check_fl ::
  "(real \<Rightarrow> real) \<Rightarrow> param \<Rightarrow> real \<Rightarrow> baseline \<Rightarrow> anomalies \<Rightarrow> anomalies" where
  "sigma_check_fl fl p v stats anomalies =
     (if \<bar>fl (v - mean stats)\<bar> > fl (3 * std stats)
      then AList.update p
             (StdDevFromNormal v (np_div_fl fl \<bar>fl (v - mean stats)\<bar> (std stats))) anomalies
      else anomalies)"

definition iqr_check_fl ::
  "(real \<Rightarrow> real) \<Rightarrow> param \<Rightarrow> real \<Rightarrow> baseline \<Rightarrow> anomalies \<Rightarrow> anomalies" where
  "iqr_check_fl fl p v stats anomalies =
     (let iqr = fl (q75 stats - q25 stats)
      in if \<bar>fl (v - median stats)\<bar> > fl (2 * iqr)
         then AList.update p (DifferentFromTypical v) anomalies
         else anomalies)"

definition detect_param_fl ::
  "(real \<Rightarrow> real) \<Rightarrow> baseline_stats \<Rightarrow> SensorReading \<Rightarrow> anomalies \<Rightarrow> param \<Rightarrow> anomalies" where
  "detect_param_fl fl stats_dict reading anomalies p =
     (let v = getattr reading p; (lo, hi) = anomaly_thresholds p
      in if v < lo \<or> v > hi then AList.update p (OutsideNormalRange v lo hi) anomalies
         else (case map_of stats_dict p of
                 None \<Rightarrow> anomalies
               | Some stats \<Rightarrow>
                   iqr_check_fl fl p v stats (sigma_check_fl fl p v stats anomalies)))"

definition detect_anomalies_fl ::
  "(real \<Rightarrow> real) \<Rightarrow> baseline_stats \<Rightarrow> SensorReading \<Rightarrow> anomalies" where
  "detect_anomalies_fl fl stats_dict reading =
     foldl (detect_param_fl fl stats_dict reading) [] all_params"

definition param_verdict_fl ::
  "(real \<Rightarrow> real) \<Rightarrow> baseline_stats \<Rightarrow> SensorReading \<Rightarrow> param \<Rightarrow> anomaly_message option" where
  "param_verdict_fl fl stats_dict reading p = map_of (detect_param_fl fl stats_dict reading [] p) p"

text \<open>
  The statistics \<^verbatim>\<open>update_baseline\<close> computes from the ten TDS values 192.75, four
  times 196.375, four times 203.625 and 207.25 (the standard deviation is the float
  nearest to the square root of 21.025), and a reading whose TDS lies just beyond
  three of those standard deviations from the mean.
\<close>

definition edge_baseline :: baseline where
  "edge_baseline =
     \<lparr>mean = 200, std = 5162591778341429 / 1125899906842624, median = 200,
      q25 = 196.375, q75 = 203.625\<rparr>"

definition edge_reading :: SensorReading where
  "edge_reading =
     \<lparr>timestamp = 0, tds = 7520867396985909 / 35184372088832, ph = 7.3, orp = 450,
      turbidity = 0.15, temperature = 22\<rparr>"

section \<open>Properties of the filter wear estimator\<close>

lemma py_round1_ge: "of_int a \<le> x * 10 \<Longrightarrow> of_int a / 10 \<le> py_round1 x"
proof -
  assume "of_int a \<le> x * 10"
  then have "a \<le> \<lfloor>x * 10\<rfloor>" by (simp add: le_floor_iff)
  then have "(of_int a :: real) \<le> of_int \<lfloor>x * 10\<rfloor>" by simp
  then show ?thesis
    by (simp add: py_round1_def Let_def divide_right_mono)
qed

lemma py_round1_le: "x * 10 \<le> of_int b \<Longrightarrow> py_round1 x \<le> of_int b / 10"
proof (cases "x * 10 = of_int b")
  case True
  then show ?thesis by (simp add: py_round1_def Let_def)
next
  case False
  assume "x * 10 \<le> of_int b"
  with False have "x * 10 < of_int b" by simp
  then have "\<lfloor>x * 10\<rfloor> < b" by (simp add: floor_less_iff)
  then have "\<lfloor>x * 10\<rfloor> + 1 \<le> b" by simp
  then have "(of_int (\<lfloor>x * 10\<rfloor> + 1) :: real) \<le> of_int b"
    by (simp only: of_int_le_iff)
  moreover have "(of_int \<lfloor>x * 10\<rfloor> :: real) \<le> of_int (\<lfloor>x * 10\<rfloor> + 1)" by simp
  ultimately show ?thesis
    by (simp add: py_round1_def Let_def divide_right_mono)
qed



section \<open>Rounding to binary64\<close>

lemma fl64_zero: "fl64 0 = 0"
  by (simp add: fl64_def)

lemma fl64_binade:
  assumes "2 ^ e \<le> \<bar>x\<bar>" and "\<bar>x\<bar> < 2 ^ Suc e" and "e \<le> 52"
  shows "fl64 x = of_int (round_half_even (x * 2 ^ (52 - e))) / 2 ^ (52 - e)"
proof -
  have pos: "0 < \<bar>x\<bar>"
    using assms(1) by (smt (verit) zero_less_power)
  have lo: "real e \<le> log 2 \<bar>x\<bar>"
    using assms(1) pos by (simp add: le_log_iff powr_realpow)
  have "\<bar>x\<bar> < 2 powr (real (Suc e))"
    using assms(2) by (simp only: powr_realpow [of 2 "Suc e"])
  then have hi: "log 2 \<bar>x\<bar> < real e + 1"
    using pos by (simp add: log_less_iff add.commute)
  have fl: "\<lfloor>log 2 \<bar>x\<bar>\<rfloor> = int e"
    using lo hi by (simp add: floor_eq_iff)
  have "real e - 52 = - real (52 - e)"
    using assms(3) by simp
  then have u: "2 powr (real e - 52) = 1 / 2 ^ (52 - e)"
    by (simp only: powr_minus powr_realpow [of 2 "52 - e"]) (simp add: field_simps)
  have "x \<noteq> 0" using pos by auto
  then show ?thesis
    by (simp add: fl64_def fl u Let_def)
qed

lemma round_half_even_nonneg: "0 \<le> z \<Longrightarrow> 0 \<le> round_half_even z"
  by (simp add: round_half_even_def Let_def)

lemma round_half_even_le: "z \<le> of_int n \<Longrightarrow> round_half_even z \<le> n"
proof (cases "z = of_int n")
  case True
  then show ?thesis by (simp add: round_half_even_def Let_def)
next
  case False
  assume "z \<le> of_int n"
  with False have "z < of_int n" by simp
  then have "\<lfloor>z\<rfloor> < n" by (simp add: floor_less_iff)
  then show ?thesis by (simp add: round_half_even_def Let_def)
qed

lemma fl64_nonneg: "0 \<le> x \<Longrightarrow> 0 \<le> fl64 x"
  by (simp add: fl64_def Let_def round_half_even_nonneg)

lemma fl64_le_100:
  assumes "x \<le> 100"
  shows "fl64 x \<le> 100"
proof (cases "x \<le> 0")
  case True
  define u where "u = 2 powr (real_of_int (max \<lfloor>log 2 \<bar>x\<bar>\<rfloor> (- 1022)) - 52)"
  have u: "0 < u" by (simp add: u_def)
  have "x / u \<le> of_int 0"
    using True u by (simp add: divide_nonpos_pos)
  then have "round_half_even (x / u) \<le> 0"
    by (rule round_half_even_le)
  then have "real_of_int (round_half_even (x / u)) \<le> 0" by simp
  then have "real_of_int (round_half_even (x / u)) * u \<le> 0"
    using u by (simp add: mult_nonpos_nonneg)
  then show ?thesis
    by (simp add: fl64_def Let_def u_def [symmetric])
next
  case False
  then have pos: "0 < x" by simp
  define e where "e = max \<lfloor>log 2 x\<rfloor> (- 1022)"
  have "x < 2 powr 7" using assms by simp
  then have "log 2 x < 7"
    using pos by (simp add: log_less_iff)
  then have "\<lfloor>log 2 x\<rfloor> < 7" by (simp add: floor_less_iff)
  then have e: "e \<le> 6" by (simp add: e_def)
  define k where "k = nat (52 - e)"
  have k: "real_of_int e - 52 = - real k"
    using e by (simp add: k_def)
  have u: "2 powr (real_of_int e - 52) = 1 / 2 ^ k"
    by (simp only: k powr_minus powr_realpow [of 2 k]) (simp add: field_simps)
  have f: "fl64 x =
      real_of_int (round_half_even (x / 2 powr (real_of_int e - 52)))
        * 2 powr (real_of_int e - 52)"
    using pos by (simp add: fl64_def Let_def e_def)
  have "x * 2 ^ k \<le> of_int (100 * 2 ^ k)"
    using assms by simp
  then have "round_half_even (x * 2 ^ k) \<le> 100 * 2 ^ k"
    by (rule round_half_even_le)
  then have "real_of_int (round_half_even (x * 2 ^ k)) \<le> 100 * 2 ^ k"
    by (metis of_int_le_iff of_int_mult of_int_numeral of_int_power)
  then have "real_of_int (round_half_even (x * 2 ^ k)) / 2 ^ k \<le> 100"
    by (simp add: pos_divide_le_eq)
  then show ?thesis
    by (simp add: f u)
qed

lemma round1_64_bounds:
  "\<forall>x. 0 \<le> x \<longrightarrow> 0 \<le> round1_64 x" "\<forall>x. x \<le> 100 \<longrightarrow> round1_64 x \<le> 100"
proof -
  have "0 \<le> py_round1 x" if "0 \<le> x" for x
    using py_round1_ge [of 0 x] that by simp
  then show "\<forall>x. 0 \<le> x \<longrightarrow> 0 \<le> round1_64 x"
    by (simp add: round1_64_def fl64_nonneg)
  have "py_round1 x \<le> 100" if "x \<le> 100" for x
    using py_round1_le [of x 1000] that by simp
  then show "\<forall>x. x \<le> 100 \<longrightarrow> round1_64 x \<le> 100"
    by (simp add: round1_64_def fl64_le_100)
qed

lemma fl64_values:
  "fl64 3 = 3" "fl64 5 = 5" "fl64 6 = 6" "fl64 14 = 14" "fl64 16 = 16" "fl64 77 = 77" "fl64 30 = 30"
  "fl64 300 = 300" "fl64 (29 / 4) = 29 / 4" "fl64 (29 / 2) = 29 / 2"
  using fl64_binade [of 1 3] fl64_binade [of 2 5] fl64_binade [of 2 6] fl64_binade [of 3 14] fl64_binade [of 4 16]
    fl64_binade [of 6 77] fl64_binade [of 4 30] fl64_binade [of 8 300]
    fl64_binade [of 2 "29 / 4"] fl64_binade [of 3 "29 / 2"]
  by (simp_all add: round_half_even_def Let_def)

lemma fl64_literal_1_2: "fl64 (6 / 5) = 5404319552844595 / 4503599627370496"
  using fl64_binade [of 0 "6 / 5"] by (simp add: round_half_even_def Let_def)

lemma fl64_5_times_1_2: "fl64 (27021597764222975 / 4503599627370496) = 6"
  using fl64_binade [of 2 "27021597764222975 / 4503599627370496"]
  by (simp add: round_half_even_def Let_def)

lemma fl64_three_std:
  "fl64 (15487775335024287 / 1125899906842624) = 483992979219509 / 35184372088832"
  using fl64_binade [of 3 "15487775335024287 / 1125899906842624"]
  by (simp add: round_half_even_def Let_def)

lemma fl64_edge_deviation:
  "fl64 (483992979219509 / 35184372088832) = 483992979219509 / 35184372088832"
  using fl64_binade [of 3 "483992979219509 / 35184372088832"]
  by (simp add: round_half_even_def Let_def)

section \<open>Filter wear on floats\<close>

text \<open>Without rounding, the float definition is the one on real numbers.\<close>

lemma predict_saturation_exact:
  "\<bar>d\<bar> < overflow_bound \<Longrightarrow>
   predict_saturation_fl (\<lambda>x. x) py_round1 now u readings h d =
     Inr (predict_saturation now u readings h d)"
  by (simp add: predict_saturation_fl_def predict_saturation_def float_of_int_def Let_def)

lemma foldl_penalties:
  "foldl (\<lambda>w k. fl (w + k)) b (spec_penalties latest) =
     (let base1 = (if tds latest > 300 then fl (b + 10) else b);
          base2 = (if turbidity latest > 0.5 then fl (base1 + 15) else base1)
      in if ph latest < 6.5 \<or> ph latest > 8.5 then fl (base2 + 5) else base2)"
  by (simp add: spec_penalties_def Let_def)

lemma predict_saturation_fl_nonempty:
  assumes "readings \<noteq> []" and "\<bar>d\<bar> < overflow_bound"
  shows "predict_saturation_fl fl round1 now u readings h d =
     (let s = min (fl (spec_wear_fl fl (fl (of_int d)) (latest_of now (last readings)) + u)) 100 in
      Inr (FilterOk \<lparr>saturation_percent = round1 s,
        days_until_replacement = round1 (if s < 80 then fl (fl (80 - s) / 1.5) else 0),
        replacement_needed = (s \<ge> 80),
        confidence = (if s > 20 then ''high'' else ''medium'')\<rparr>))"
  using assms
  by (simp add: predict_saturation_fl_def float_of_int_def spec_wear_fl_def foldl_penalties
      Let_def)

text \<open>
  C1, as stated, at a concrete input: a clean reading, zero days, and the random term
  drawn as 3, every operation rounded to binary64. The estimator returns 3.0 where
  baseline plus penalties, clamped, is 0.
\<close>

theorem C1_jitter_counterexample:
  "map_result get_saturation_percent
     (predict_saturation_fl fl64 round1_64 0 3 [Obj clean_reading] 0 0) = Inr 3
   \<and> clamp_0_100 (spec_wear_fl fl64 (fl64 0) clean_reading) = 0"
proof -
  have ob: "\<bar>0 :: int\<bar> < overflow_bound"
    by (simp add: overflow_bound_def)
  have w: "spec_wear_fl fl64 0 (latest_of 0 (Obj clean_reading)) = 0"
    by (simp add: spec_wear_fl_def spec_penalties_def latest_of_def clean_reading_def fl64_zero)
  have r: "round1_64 3 = 3"
    by (simp add: round1_64_def py_round1_def Let_def fl64_values)
  have "map_result get_saturation_percent
     (predict_saturation_fl fl64 round1_64 0 3 [Obj clean_reading] 0 0) = Inr 3"
    using predict_saturation_fl_nonempty [of "[Obj clean_reading]" 0 fl64 round1_64 0 3 0, OF _ ob]
    by (simp add: w fl64_zero fl64_values r Let_def map_result_def get_saturation_percent_def)
  moreover have "clamp_0_100 (spec_wear_fl fl64 (fl64 0) clean_reading) = 0"
    using w by (simp add: latest_of_def clamp_0_100_def fl64_zero)
  ultimately show ?thesis by simp
qed

text \<open>
  C1, amended: for a non-empty reading sequence, a number of days that is not negative
  and converts to a float, and a random term \<open>u\<close> in \<open>[-5, 5]\<close>, the estimator succeeds
  and saturation_percent is the float sum of baseline, penalties and \<open>u\<close>, clamped into
  \<open>[0, 100]\<close> and rounded to one decimal, whenever that sum is not negative; the value
  returned then lies in \<open>[0, 100]\<close>. This holds for every rounding \<open>fl\<close> of the
  arithmetic and every \<open>round1\<close> that keeps values within 0 and 100.
\<close>

theorem C1_saturation_with_jitter:
  assumes "readings \<noteq> []" and "0 \<le> d" and "d < overflow_bound" and "- 5 \<le> u" and "u \<le> 5"
    and "\<forall>x. 0 \<le> x \<longrightarrow> 0 \<le> round1 x" and "\<forall>x. x \<le> 100 \<longrightarrow> round1 x \<le> 100"
    and "0 \<le> fl (spec_wear_fl fl (fl (of_int d)) (latest_of now (last readings)) + u)"
  shows "\<exists>p. predict_saturation_fl fl round1 now u readings h d = Inr (FilterOk p)
             \<and> saturation_percent p =
                 round1 (clamp_0_100
                   (fl (spec_wear_fl fl (fl (of_int d)) (latest_of now (last readings)) + u)))
             \<and> 0 \<le> saturation_percent p \<and> saturation_percent p \<le> 100"
proof -
  let ?w = "fl (spec_wear_fl fl (fl (of_int d)) (latest_of now (last readings)) + u)"
  have ob: "\<bar>d\<bar> < overflow_bound"
    using assms(2,3) by simp
  have c: "clamp_0_100 ?w = min ?w 100"
    using assms(8) by (simp add: clamp_0_100_def)
  have "0 \<le> min ?w 100" "min ?w 100 \<le> 100"
    using assms(8) by simp_all
  then have "0 \<le> round1 (min ?w 100)" "round1 (min ?w 100) \<le> 100"
    using assms(6,7) by blast+
  then show ?thesis
    using c by (simp add: predict_saturation_fl_nonempty [OF assms(1) ob] Let_def)
qed

theorem C1_saturation_with_jitter_witness:
  "\<exists>p. predict_saturation_fl fl64 round1_64 0 (- 2) [Obj (clean_reading\<lparr>tds := 350\<rparr>)] 0 5
         = Inr (FilterOk p)
       \<and> saturation_percent p = 14"
proof -
  have d: "(0 :: int) \<le> 5" "(5 :: int) < overflow_bound"
    by (simp_all add: overflow_bound_def)
  have w: "spec_wear_fl fl64 (fl64 (real_of_int 5))
             (latest_of 0 (last [Obj (clean_reading\<lparr>tds := 350\<rparr>)])) = 16"
    by (simp add: spec_wear_fl_def spec_penalties_def latest_of_def clean_reading_def
        fl64_literal_1_2 fl64_5_times_1_2 fl64_values)
  have nonneg: "0 \<le> fl64 (spec_wear_fl fl64 (fl64 (real_of_int 5))
             (latest_of 0 (last [Obj (clean_reading\<lparr>tds := 350\<rparr>)])) + (- 2))"
    by (simp only: w) (simp add: fl64_values)
  have r: "round1_64 14 = 14"
    by (simp add: round1_64_def py_round1_def Let_def fl64_values)
  obtain p where
    "predict_saturation_fl fl64 round1_64 0 (- 2) [Obj (clean_reading\<lparr>tds := 350\<rparr>)] 0 5
       = Inr (FilterOk p)"
    "saturation_percent p =
       round1_64 (clamp_0_100 (fl64 (spec_wear_fl fl64 (fl64 (real_of_int 5))
             (latest_of 0 (last [Obj (clean_reading\<lparr>tds := 350\<rparr>)])) + (- 2))))"
    using C1_saturation_with_jitter [of "[Obj (clean_reading\<lparr>tds := 350\<rparr>)]" 5 "- 2"
        round1_64 fl64 0 0, OF _ d _ _ round1_64_bounds nonneg]
    by auto
  then show ?thesis
    by (simp only: w) (simp add: fl64_values clamp_0_100_def r)
qed

section \<open>The empty reading sequence\<close>

text \<open>
  C9: on the empty reading sequence the filter wear estimator and both analysis entry
  points return an error dictionary instead of raising, and the entry point that owns
  baseline statistics hands them back unchanged.
\<close>

theorem C9_no_data:
  "predict_saturation now u [] h d = FilterError ''No data available for prediction''
   \<and> simple_analyze_water_quality now u [] h d = AnalysisError ''No sensor readings provided''
   \<and> analyze_water_quality predictor [] h d stats_dict =
       (Inr (AnalysisError ''No sensor readings provided''), stats_dict)"
  by (simp add: predict_saturation_def simple_analyze_water_quality_def
      analyze_water_quality_def)

section \<open>Filter alerts\<close>

text \<open>\<^verbatim>\<open>ml_model._generate_alerts\<close> raises both filter alerts.\<close>

lemma generate_alerts_filter:
  "get_replacement_needed fa \<Longrightarrow>
     has_alert ''filter_replacement'' ''high'' (generate_alerts fa anoms opt)"
  "\<not> get_replacement_needed fa \<Longrightarrow> get_saturation_percent fa > 60 \<Longrightarrow>
     has_alert ''filter_warning'' ''medium'' (generate_alerts fa anoms opt)"
  by (auto simp: generate_alerts_def has_alert_def Let_def)

lemma predict_55:
  "predict_saturation 0 0 [Obj clean_reading] 0 55 =
     FilterOk \<lparr>saturation_percent = 66, days_until_replacement = 9.3,
               replacement_needed = False, confidence = ''high''\<rparr>"
  by (simp add: predict_saturation_def latest_of_def clean_reading_def py_round1_def Let_def)

lemma simple_clean_anomalies: "simple_detect_anomalies (Obj clean_reading) = []"
  by (simp add: simple_detect_anomalies_def attr_or_def clean_reading_def Let_def)

lemma simple_clean_score:
  "quality_score (simple_get_optimization_recommendations (Obj clean_reading)) = 100"
  by (simp add: simple_get_optimization_recommendations_def attr_or_def clean_reading_def
      simple_calculate_quality_score_def simple_tds_score_def simple_ph_score_def
      simple_orp_score_def simple_turb_score_def py_round1_def Let_def)

text \<open>
  C4 at a failing input: the analysis that \<^verbatim>\<open>main.py\<close> runs, on a clean reading 55
  days after replacement with the random term drawn as 0. Replacement is not needed,
  the saturation is 66, and the alert list is empty: the simplified entry point has no
  \<^verbatim>\<open>filter_warning\<close> branch.
\<close>

theorem C4_simple_analysis_drops_filter_warning:
  "simple_analyze_water_quality 0 0 [Obj clean_reading] 0 55 =
     Analysis (Obj clean_reading)
       \<lparr>a_timestamp = 0,
        filter_analysis_of =
          FilterOk \<lparr>saturation_percent = 66, days_until_replacement = 9.3,
                    replacement_needed = False, confidence = ''high''\<rparr>,
        anomalies_of = [],
        optimization_of = simple_get_optimization_recommendations (Obj clean_reading),
        alerts_of = []\<rparr>"
  by (simp add: simple_analyze_water_quality_def Let_def predict_55 simple_clean_anomalies
      simple_clean_score get_replacement_needed_def)

section \<open>What the detector records for one parameter\<close>

lemma sigma_check_map:
  "map_of (sigma_check p v st an) =
     (if \<bar>v - mean st\<bar> > 3 * std st
      then (map_of an)(p \<mapsto> StdDevFromNormal v (np_div \<bar>v - mean st\<bar> (std st)))
      else map_of an)"
  by (simp add: sigma_check_def update_conv')

lemma iqr_check_map:
  "map_of (iqr_check p v st an) =
     (if \<bar>v - median st\<bar> > 2 * (q75 st - q25 st)
      then (map_of an)(p \<mapsto> DifferentFromTypical v)
      else map_of an)"
  by (simp add: iqr_check_def update_conv' Let_def)

lemma param_verdict_eq:
  "param_verdict sd r p =
     (let v = getattr r p
      in if v < fst (anomaly_thresholds p) \<or> v > snd (anomaly_thresholds p)
         then Some (OutsideNormalRange v (fst (anomaly_thresholds p)) (snd (anomaly_thresholds p)))
         else (case map_of sd p of
                 None \<Rightarrow> None
               | Some st \<Rightarrow>
                   if \<bar>v - median st\<bar> > 2 * (q75 st - q25 st) then Some (DifferentFromTypical v)
                   else if \<bar>v - mean st\<bar> > 3 * std st
                   then Some (StdDevFromNormal v (np_div \<bar>v - mean st\<bar> (std st)))
                   else None))"
  by (cases "anomaly_thresholds p")
     (simp add: param_verdict_def detect_param_def sigma_check_map iqr_check_map update_conv'
        Let_def split: option.splits)

lemma detect_param_map:
  "map_of (detect_param sd r an q) =
     (case param_verdict sd r q of None \<Rightarrow> map_of an | Some m \<Rightarrow> (map_of an)(q \<mapsto> m))"
  unfolding param_verdict_eq
  by (cases "anomaly_thresholds q")
     (simp add: detect_param_def sigma_check_map iqr_check_map update_conv'
        Let_def split: option.splits)

lemma foldl_detect_param:
  "distinct ps \<Longrightarrow>
   map_of (foldl (detect_param sd r) an ps) p =
     (if p \<in> set ps then (case param_verdict sd r p of None \<Rightarrow> map_of an p | Some m \<Rightarrow> Some m)
      else map_of an p)"
proof (induction ps arbitrary: an)
  case Nil
  then show ?case by simp
next
  case (Cons q ps)
  then show ?case
    by (auto simp: detect_param_map split: option.splits)
qed

lemma all_params_complete: "p \<in> set all_params" "distinct all_params"
  by (cases p; simp add: all_params_def)+

lemma detect_anomalies_lookup:
  "map_of (detect_anomalies sd r) p = param_verdict sd r p"
  unfolding detect_anomalies_def
  by (simp add: foldl_detect_param all_params_complete split: option.splits)

section \<open>Running the monitoring loops\<close>

lemma background_loop_no_stop:
  "running_flag s \<Longrightarrow> \<forall>t \<in> set trace. \<not> stop_requested t \<Longrightarrow>
   background_loop trace s =
     StillRunning (s\<lparr>slept := slept s @ map sleep_after trace,
                     logged := logged s @ concat (map log_of trace)\<rparr>)"
proof (induction trace arbitrary: s)
  case Nil
  then show ?case by simp
next
  case (Cons t ts)
  then show ?case
    by (cases "outcome t") (simp_all add: observe_stop_def sleep_after_def log_of_def)
qed

lemma background_loop_stopped:
  "\<not> running_flag s \<Longrightarrow> background_loop trace s = Returned s"
  by (cases trace) simp_all

lemma background_loop_append:
  "running_flag s \<Longrightarrow> \<forall>t \<in> set pre. \<not> stop_requested t \<Longrightarrow>
   background_loop (pre @ rest) s =
     background_loop rest (s\<lparr>slept := slept s @ map sleep_after pre,
                             logged := logged s @ concat (map log_of pre)\<rparr>)"
proof (induction pre arbitrary: s)
  case Nil
  then show ?case by simp
next
  case (Cons t ts)
  then show ?case
    by (cases "outcome t") (simp_all add: observe_stop_def sleep_after_def log_of_def)
qed

lemma background_loop_stop_tick:
  "running_flag s \<Longrightarrow> stop_requested t \<Longrightarrow>
   background_loop (t # rest) s =
     Returned (s\<lparr>slept := slept s @ [sleep_after t], logged := logged s @ log_of t,
                 running_flag := False\<rparr>)"
  by (cases "outcome t")
     (simp_all add: observe_stop_def sleep_after_def log_of_def background_loop_stopped)

lemma sensor_loop_quiet:
  "running_flag s \<Longrightarrow> \<forall>t \<in> set pre. \<not> stop_requested t \<and> outcome t \<noteq> Raised \<Longrightarrow>
   sensor_loop iv (pre @ rest) s =
     sensor_loop iv rest (s\<lparr>slept := slept s @ replicate (length pre) iv\<rparr>)"
proof (induction pre arbitrary: s)
  case Nil
  then show ?case by simp
next
  case (Cons t ts)
  then show ?case
    by (cases "outcome t") (simp_all add: observe_stop_def replicate_append_same)
qed

text \<open>
  C2, as stated, at a concrete trace: the first iteration of
  \<^verbatim>\<open>SensorManager.start_monitoring\<close> raises and nobody asked to stop. The loop has
  returned, without a backoff sleep.
\<close>

theorem C2_start_monitoring_counterexample:
  "start_monitoring 30 [\<lparr>outcome = Raised, stop_requested = False\<rparr>] =
     Returned \<lparr>running_flag = True, slept = [], logged = [ErrorDuringMonitoring],
               serial_closed = True\<rparr>"
  by (simp add: start_monitoring_def observe_stop_def)

text \<open>
  C2, amended. \<^verbatim>\<open>background_monitoring\<close>: on a trace without a stop request the loop is
  still running after the trace, each raising iteration is logged and followed by a 60
  second sleep (30 seconds otherwise); the loop returns only if a stop was requested,
  and then at the top of the iteration after the one in flight.
  \<^verbatim>\<open>start_monitoring\<close>: the first raising iteration is logged, the serial connection
  is closed and the loop returns; the running flag is false only if a stop was
  requested during that iteration.
\<close>

theorem C2_background_monitoring_survives:
  "((\<forall>t \<in> set trace. \<not> stop_requested t) \<longrightarrow>
      background_monitoring trace =
        StillRunning \<lparr>running_flag = True, slept = map sleep_after trace,
                       logged = concat (map log_of trace), serial_closed = False\<rparr>)
   \<and> (\<not> is_running (background_monitoring trace) \<longrightarrow> (\<exists>t \<in> set trace. stop_requested t))
   \<and> ((\<forall>t \<in> set pre. \<not> stop_requested t) \<and> stop_requested stopper \<longrightarrow>
        background_monitoring (pre @ stopper # rest) =
          Returned \<lparr>running_flag = False, slept = map sleep_after (pre @ [stopper]),
                    logged = concat (map log_of (pre @ [stopper])), serial_closed = False\<rparr>)
   \<and> ((\<forall>t \<in> set quiet. \<not> stop_requested t \<and> outcome t \<noteq> Raised) \<and> outcome failing = Raised \<longrightarrow>
        start_monitoring iv (quiet @ failing # later) =
          Returned \<lparr>running_flag = (\<not> stop_requested failing),
                    slept = replicate (length quiet) iv,
                    logged = [ErrorDuringMonitoring], serial_closed = True\<rparr>)"
proof -
  let ?s0 = "\<lparr>running_flag = True, slept = [], logged = [], serial_closed = False\<rparr>"
  have a: "(\<forall>t \<in> set trace. \<not> stop_requested t) \<longrightarrow>
      background_monitoring trace =
        StillRunning \<lparr>running_flag = True, slept = map sleep_after trace,
                       logged = concat (map log_of trace), serial_closed = False\<rparr>"
    by (simp add: background_monitoring_def background_loop_no_stop [of ?s0])
  have b: "\<not> is_running (background_monitoring trace) \<longrightarrow> (\<exists>t \<in> set trace. stop_requested t)"
    using a by (auto simp: is_running_def)
  have c: "(\<forall>t \<in> set pre. \<not> stop_requested t) \<and> stop_requested stopper \<longrightarrow>
        background_monitoring (pre @ stopper # rest) =
          Returned \<lparr>running_flag = False, slept = map sleep_after (pre @ [stopper]),
                    logged = concat (map log_of (pre @ [stopper])), serial_closed = False\<rparr>"
    by (simp del: background_loop.simps
        add: background_monitoring_def background_loop_append [of ?s0]
        background_loop_stop_tick)
  have d: "(\<forall>t \<in> set quiet. \<not> stop_requested t \<and> outcome t \<noteq> Raised) \<and> outcome failing = Raised \<longrightarrow>
        start_monitoring iv (quiet @ failing # later) =
          Returned \<lparr>running_flag = (\<not> stop_requested failing),
                    slept = replicate (length quiet) iv,
                    logged = [ErrorDuringMonitoring], serial_closed = True\<rparr>"
    by (simp add: start_monitoring_def sensor_loop_quiet [of ?s0] observe_stop_def)
  from a b c d show ?thesis by blast
qed

theorem C2_background_monitoring_survives_witness:
  "background_monitoring two_failures =
     StillRunning \<lparr>running_flag = True, slept = [60, 60],
        logged = [BackgroundMonitoringError, BackgroundMonitoringError], serial_closed = False\<rparr>
   \<and> background_monitoring (two_failures @ \<lparr>outcome = Processed, stop_requested = True\<rparr> # two_failures) =
       Returned \<lparr>running_flag = False, slept = [60, 60, 30],
        logged = [BackgroundMonitoringError, BackgroundMonitoringError], serial_closed = False\<rparr>
   \<and> start_monitoring 30 ([\<lparr>outcome = Processed, stop_requested = False\<rparr>]
         @ \<lparr>outcome = Raised, stop_requested = True\<rparr> # two_failures) =
       Returned \<lparr>running_flag = False, slept = [30], logged = [ErrorDuringMonitoring],
                 serial_closed = True\<rparr>"
  using C2_background_monitoring_survives [where trace = two_failures and pre = two_failures
      and stopper = "\<lparr>outcome = Processed, stop_requested = True\<rparr>" and rest = two_failures
      and quiet = "[\<lparr>outcome = Processed, stop_requested = False\<rparr>]"
      and failing = "\<lparr>outcome = Raised, stop_requested = True\<rparr>" and iv = 30
      and later = two_failures]
  by (simp add: two_failures_def sleep_after_def log_of_def)

section \<open>Baseline and detector\<close>

lemma update_param_map:
  "map_of (update_param rs sd q) =
     (map_of sd)(q \<mapsto> compute_baseline (map (\<lambda>r. getattr r q) (last50 rs)))"
  by (simp add: update_param_def update_conv' Let_def)

lemma foldl_update_param:
  "map_of (foldl (update_param rs) sd ps) p =
     (if p \<in> set ps then Some (compute_baseline (map (\<lambda>r. getattr r p) (last50 rs)))
      else map_of sd p)"
  by (induction ps arbitrary: sd) (simp_all add: update_param_map)

lemma update_baseline_lookup:
  "10 \<le> length rs \<Longrightarrow>
   map_of (update_baseline rs sd) p =
     Some (compute_baseline (map (\<lambda>r. getattr r p) (last50 rs)))"
  by (simp add: update_baseline_def foldl_update_param all_params_complete)

lemma steady_tds_values:
  "map (\<lambda>r. getattr r TDS) (last50 steady_history) =
     [200, 200, 200, 200, 200, 200, 200, 200, 200, 200]"
  by (simp add: steady_history_def last50_def getattr_def steady_reading_def)

lemma compute_baseline_flat:
  "compute_baseline [200, 200, 200, 200, 200, 200, 200, 200, 200, 200] = flat_200"
  by (simp add: compute_baseline_def flat_200_def np_mean_def np_std_def np_median_def
      np_percentile_def Let_def)

text \<open>
  C6: with fewer than ten readings \<^verbatim>\<open>update_baseline\<close> returns at once, so statistics
  that were unset stay unset, and the detector then records for each parameter exactly
  what the absolute thresholds say.
\<close>

theorem C6_short_history:
  assumes "length readings < 10"
  shows "update_baseline readings stats_dict = stats_dict
       \<and> update_baseline readings [] = []
       \<and> map_of (detect_anomalies (update_baseline readings []) r) p
           = absolute_check p (getattr r p)"
  using assms
  by (cases "anomaly_thresholds p")
     (simp add: update_baseline_def detect_anomalies_lookup param_verdict_eq absolute_check_def
        Let_def)

theorem C6_short_history_witness:
  "update_baseline [clean_reading] [(TDS, flat_200)] = [(TDS, flat_200)]
   \<and> update_baseline [clean_reading] [] = []
   \<and> map_of (detect_anomalies (update_baseline [clean_reading] [])
               (clean_reading\<lparr>tds := 900\<rparr>)) TDS
       = Some (OutsideNormalRange 900 50 800)"
proof -
  have short: "length [clean_reading] < 10"
    by simp
  have tds: "absolute_check TDS (getattr (clean_reading\<lparr>tds := 900\<rparr>) TDS)
               = Some (OutsideNormalRange 900 50 800)"
    by (simp add: absolute_check_def anomaly_thresholds_def getattr_def)
  show ?thesis
    using C6_short_history [OF short, of "[(TDS, flat_200)]" "clean_reading\<lparr>tds := 900\<rparr>" TDS]
    unfolding tds .
qed

lemma sigma_check_fl_map:
  "map_of (sigma_check_fl fl p v st an) =
     (if \<bar>fl (v - mean st)\<bar> > fl (3 * std st)
      then (map_of an)(p \<mapsto> StdDevFromNormal v (np_div_fl fl \<bar>fl (v - mean st)\<bar> (std st)))
      else map_of an)"
  by (simp add: sigma_check_fl_def update_conv')

lemma iqr_check_fl_map:
  "map_of (iqr_check_fl fl p v st an) =
     (if \<bar>fl (v - median st)\<bar> > fl (2 * fl (q75 st - q25 st))
      then (map_of an)(p \<mapsto> DifferentFromTypical v)
      else map_of an)"
  by (simp add: iqr_check_fl_def update_conv' Let_def)

lemma param_verdict_fl_eq:
  "param_verdict_fl fl sd r p =
     (let v = getattr r p
      in if v < fst (anomaly_thresholds p) \<or> v > snd (anomaly_thresholds p)
         then Some (OutsideNormalRange v (fst (anomaly_thresholds p)) (snd (anomaly_thresholds p)))
         else (case map_of sd p of
                 None \<Rightarrow> None
               | Some st \<Rightarrow>
                   if \<bar>fl (v - median st)\<bar> > fl (2 * fl (q75 st - q25 st))
                   then Some (DifferentFromTypical v)
                   else if \<bar>fl (v - mean st)\<bar> > fl (3 * std st)
                   then Some (StdDevFromNormal v (np_div_fl fl \<bar>fl (v - mean st)\<bar> (std st)))
                   else None))"
  by (cases "anomaly_thresholds p")
     (simp add: param_verdict_fl_def detect_param_fl_def sigma_check_fl_map iqr_check_fl_map
        update_conv' Let_def split: option.splits)

lemma detect_param_fl_map:
  "map_of (detect_param_fl fl sd r an q) =
     (case param_verdict_fl fl sd r q of None \<Rightarrow> map_of an | Some m \<Rightarrow> (map_of an)(q \<mapsto> m))"
  unfolding param_verdict_fl_eq
  by (cases "anomaly_thresholds q")
     (simp add: detect_param_fl_def sigma_check_fl_map iqr_check_fl_map update_conv'
        Let_def split: option.splits)

lemma foldl_detect_param_fl:
  "distinct ps \<Longrightarrow>
   map_of (foldl (detect_param_fl fl sd r) an ps) p =
     (if p \<in> set ps
      then (case param_verdict_fl fl sd r p of None \<Rightarrow> map_of an p | Some m \<Rightarrow> Some m)
      else map_of an p)"
proof (induction ps arbitrary: an)
  case Nil
  then show ?case by simp
next
  case (Cons q ps)
  then show ?case
    by (auto simp: detect_param_fl_map split: option.splits)
qed

lemma detect_anomalies_fl_lookup:
  "map_of (detect_anomalies_fl fl sd r) p = param_verdict_fl fl sd r p"
  unfolding detect_anomalies_fl_def
  by (simp add: foldl_detect_param_fl all_params_complete split: option.splits)

lemma checks_exact:
  "sigma_check_fl (\<lambda>x. x) p v st an = sigma_check p v st an"
  "iqr_check_fl (\<lambda>x. x) p v st an = iqr_check p v st an"
  by (simp_all add: sigma_check_fl_def sigma_check_def iqr_check_fl_def iqr_check_def
      np_div_fl_def np_div_def)

lemma detect_anomalies_exact: "detect_anomalies_fl (\<lambda>x. x) sd r = detect_anomalies sd r"
proof -
  have "detect_param_fl (\<lambda>x. x) sd r an p = detect_param sd r an p" for an p
    by (cases "anomaly_thresholds p")
       (simp add: detect_param_fl_def detect_param_def checks_exact Let_def
          split: option.splits)
  then have "detect_param_fl (\<lambda>x. x) sd r = detect_param sd r"
    by (simp add: fun_eq_iff)
  then show ?thesis
    by (simp add: detect_anomalies_fl_def detect_anomalies_def)
qed

text \<open>
  C5, as stated, at a concrete input: the baseline that ten TDS readings produce and a
  reading inside the absolute range whose deviation from the mean exceeds three
  standard deviations by \<open>1 / 2 ^ 50\<close>. The float product \<^verbatim>\<open>3 * std\<close> rounds up to the
  deviation, the comparison is false, and the parameter is not flagged.
\<close>

theorem C5_rounded_product_counterexample:
  "fst (anomaly_thresholds TDS) \<le> getattr edge_reading TDS
   \<and> getattr edge_reading TDS \<le> snd (anomaly_thresholds TDS)
   \<and> map_of [(TDS, edge_baseline)] TDS = Some edge_baseline
   \<and> \<bar>getattr edge_reading TDS - mean edge_baseline\<bar> > 3 * std edge_baseline
   \<and> map_of (detect_anomalies_fl fl64 [(TDS, edge_baseline)] edge_reading) TDS = None"
proof -
  have dev: "getattr edge_reading TDS - mean edge_baseline = 483992979219509 / 35184372088832"
    by (simp add: getattr_def edge_reading_def edge_baseline_def)
  have dev': "getattr edge_reading TDS - median edge_baseline = 483992979219509 / 35184372088832"
    by (simp add: getattr_def edge_reading_def edge_baseline_def)
  have prod: "3 * std edge_baseline = 3 * (5162591778341429 / 1125899906842624)"
    by (simp add: edge_baseline_def)
  have iqr: "q75 edge_baseline - q25 edge_baseline = 29 / 4"
    by (simp add: edge_baseline_def)
  have twice: "2 * (29 / 4) = (29 / 2 :: real)" by simp
  have range: "fst (anomaly_thresholds TDS) \<le> getattr edge_reading TDS"
    "getattr edge_reading TDS \<le> snd (anomaly_thresholds TDS)"
    by (simp_all add: anomaly_thresholds_def getattr_def edge_reading_def)
  have exact: "\<bar>getattr edge_reading TDS - mean edge_baseline\<bar> > 3 * std edge_baseline"
    by (simp only: dev prod)
  have "param_verdict_fl fl64 [(TDS, edge_baseline)] edge_reading TDS = None"
    using range
    by (simp add: param_verdict_fl_eq Let_def dev dev' prod iqr twice fl64_three_std
        fl64_edge_deviation fl64_values)
  then show ?thesis
    using range exact by (simp add: detect_anomalies_fl_lookup)
qed

text \<open>
  C5, amended: a value outside the absolute range of its parameter is recorded as out
  of range whatever the baseline holds; a value inside it, with a baseline present, is
  recorded whenever the float difference from the mean exceeds in magnitude the float
  product \<^verbatim>\<open>3 * std\<close>, with the message of the three-sigma check or, when the median
  check fires after it, of that one. This holds for every rounding \<open>fl\<close>.
\<close>

theorem C5_absolute_then_three_sigma:
  "anomaly_thresholds TDS = (50, 800) \<and> anomaly_thresholds PH = (6.0, 9.0)
   \<and> anomaly_thresholds ORP = (100, 900) \<and> snd (anomaly_thresholds Turbidity) = 5.0
   \<and> (getattr r p < fst (anomaly_thresholds p) \<or> getattr r p > snd (anomaly_thresholds p) \<longrightarrow>
        map_of (detect_anomalies_fl fl sd r) p =
          Some (OutsideNormalRange (getattr r p)
                  (fst (anomaly_thresholds p)) (snd (anomaly_thresholds p))))
   \<and> (fst (anomaly_thresholds p) \<le> getattr r p \<and> getattr r p \<le> snd (anomaly_thresholds p)
        \<and> map_of sd p = Some st \<and> \<bar>fl (getattr r p - mean st)\<bar> > fl (3 * std st) \<longrightarrow>
        map_of (detect_anomalies_fl fl sd r) p \<in>
          {Some (StdDevFromNormal (getattr r p)
                   (np_div_fl fl \<bar>fl (getattr r p - mean st)\<bar> (std st))),
           Some (DifferentFromTypical (getattr r p))})"
  by (simp add: detect_anomalies_fl_lookup param_verdict_fl_eq Let_def anomaly_thresholds_def)

theorem C5_absolute_then_three_sigma_witness:
  "map_of (detect_anomalies_fl fl64
             [(TDS, \<lparr>mean = 200, std = 10, median = 200, q25 = 193, q75 = 207\<rparr>)]
             (clean_reading\<lparr>tds := 900\<rparr>)) TDS
     = Some (OutsideNormalRange 900 50 800)
   \<and> map_of (detect_anomalies_fl fl64
               [(TDS, \<lparr>mean = 200, std = 10, median = 200, q25 = 193, q75 = 207\<rparr>)]
               (clean_reading\<lparr>tds := 500\<rparr>)) TDS
       \<in> {Some (StdDevFromNormal 500 (np_div_fl fl64 300 10)), Some (DifferentFromTypical 500)}"
  using C5_absolute_then_three_sigma
      [of "clean_reading\<lparr>tds := 900\<rparr>" TDS fl64
          "[(TDS, \<lparr>mean = 200, std = 10, median = 200, q25 = 193, q75 = 207\<rparr>)]"
          "\<lparr>mean = 200, std = 10, median = 200, q25 = 193, q75 = 207\<rparr>"]
    C5_absolute_then_three_sigma
      [of "clean_reading\<lparr>tds := 500\<rparr>" TDS fl64
          "[(TDS, \<lparr>mean = 200, std = 10, median = 200, q25 = 193, q75 = 207\<rparr>)]"
          "\<lparr>mean = 200, std = 10, median = 200, q25 = 193, q75 = 207\<rparr>"]
  by (simp add: anomaly_thresholds_def getattr_def fl64_values)

text \<open>With a zero standard deviation the comparison flags exactly the deviating values.\<close>

lemma zero_spread_flagging:
  assumes "map_of sd p = Some st" and "std st = 0"
    and "fst (anomaly_thresholds p) \<le> getattr r p" and "getattr r p \<le> snd (anomaly_thresholds p)"
  shows "getattr r p \<noteq> mean st \<Longrightarrow> map_of (detect_anomalies sd r) p \<noteq> None"
    and "getattr r p = mean st \<Longrightarrow> median st = mean st \<Longrightarrow> q25 st = q75 st \<Longrightarrow>
         map_of (detect_anomalies sd r) p = None"
  using assms by (simp_all add: detect_anomalies_lookup param_verdict_eq Let_def)

text \<open>
  C7 at a failing input: after ten identical readings the TDS baseline has standard
  deviation 0; for a reading with TDS 500 the three-sigma check builds its message
  from the quotient \<open>|500 - 200| / 0\<close>, which numpy evaluates to infinity. The median
  check then replaces the message.
\<close>

theorem C7_zero_spread_divides_by_zero:
  "map_of (update_baseline steady_history []) TDS = Some flat_200
   \<and> std flat_200 = 0
   \<and> sigma_check TDS 500 flat_200 [] = [(TDS, StdDevFromNormal 500 (np_div \<bar>500 - 200\<bar> 0))]
   \<and> np_div \<bar>500 - 200\<bar> 0 = PosInf
   \<and> map_of (detect_anomalies (update_baseline steady_history [])
                (steady_reading\<lparr>tds := 500\<rparr>)) TDS
       = Some (DifferentFromTypical 500)"
proof -
  have len: "10 \<le> length steady_history"
    by (simp add: steady_history_def)
  have base: "map_of (update_baseline steady_history []) TDS = Some flat_200"
    by (simp add: update_baseline_lookup [OF len] steady_tds_values compute_baseline_flat)
  have sig: "sigma_check TDS 500 flat_200 []
               = [(TDS, StdDevFromNormal 500 (np_div \<bar>500 - 200\<bar> 0))]"
    by (simp add: sigma_check_def flat_200_def)
  have inf: "np_div \<bar>500 - 200\<bar> 0 = PosInf"
    by (simp add: np_div_def)
  have fin: "map_of (detect_anomalies (update_baseline steady_history [])
                (steady_reading\<lparr>tds := 500\<rparr>)) TDS = Some (DifferentFromTypical 500)"
    by (simp add: detect_anomalies_lookup param_verdict_eq base Let_def getattr_def
        anomaly_thresholds_def flat_200_def)
  show ?thesis
    using base sig inf fin by (simp add: flat_200_def)
qed

section \<open>Quality scores\<close>












section \<open>Validator warnings\<close>

lemma validate_ph_map:
  "map_of (validate_ph x w) =
     (map_of w)(PH := if float_lt (f_ph x) 6.5 then Some ''pH too low - water is acidic''
                      else if float_gt (f_ph x) 8.5 then Some ''pH too high - water is alkaline''
                      else map_of w PH)"
  by (simp add: validate_ph_def update_conv' fun_eq_iff)

lemma validate_tds_map:
  "map_of (validate_tds x w) =
     (map_of w)(TDS := if float_gt (f_tds x) 600
                       then Some ''TDS too high - excessive dissolved solids''
                       else if float_lt (f_tds x) 50
                       then Some ''TDS too low - may lack essential minerals''
                       else map_of w TDS)"
  by (simp add: validate_tds_def update_conv' fun_eq_iff)

lemma validate_turbidity_map:
  "map_of (validate_turbidity x w) =
     (map_of w)(Turbidity := if float_gt (f_turbidity x) 1.0
                             then Some ''Turbidity too high - water appears cloudy''
                             else map_of w Turbidity)"
  by (simp add: validate_turbidity_def update_conv' fun_eq_iff)

lemma validate_orp_map:
  "map_of (validate_orp x w) =
     (map_of w)(ORP := if float_lt (f_orp x) 200
                       then Some ''ORP too low - poor disinfection potential''
                       else if float_gt (f_orp x) 800
                       then Some ''ORP too high - over-oxidized water''
                       else map_of w ORP)"
  by (simp add: validate_orp_def update_conv' fun_eq_iff)

lemma validate_reading_lookup:
  "map_of (validate_reading x) PH =
     (if float_lt (f_ph x) 6.5 then Some ''pH too low - water is acidic''
      else if float_gt (f_ph x) 8.5 then Some ''pH too high - water is alkaline'' else None)"
  "map_of (validate_reading x) TDS =
     (if float_gt (f_tds x) 600 then Some ''TDS too high - excessive dissolved solids''
      else if float_lt (f_tds x) 50 then Some ''TDS too low - may lack essential minerals''
      else None)"
  "map_of (validate_reading x) Turbidity =
     (if float_gt (f_turbidity x) 1.0 then Some ''Turbidity too high - water appears cloudy''
      else None)"
  "map_of (validate_reading x) ORP =
     (if float_lt (f_orp x) 200 then Some ''ORP too low - poor disinfection potential''
      else if float_gt (f_orp x) 800 then Some ''ORP too high - over-oxidized water'' else None)"
  "map_of (validate_reading x) Temperature = None"
  unfolding validate_reading_def validate_ph_map validate_tds_map validate_turbidity_map
    validate_orp_map
  by simp_all

text \<open>
  C3, as stated, at a concrete reading: every float is NaN, and the validator returns
  the empty mapping instead of failing.
\<close>

theorem C3_nan_counterexample:
  "\<not> well_formed nan_reading \<and> validate_reading nan_reading = []"
  by (simp add: well_formed_def nan_reading_def validate_reading_def validate_ph_def
      validate_tds_def validate_turbidity_def validate_orp_def)

text \<open>
  C3, amended: the validator is a total function without a failure mode. For a
  well-formed reading the warning mapping is the one the four range checks give, with
  no entry for the temperature; a NaN field raises no warning.
\<close>

theorem C3_validator_never_fails:
  "map_of (validate_reading (float_reading r)) PH =
     (if ph r < 6.5 then Some ''pH too low - water is acidic''
      else if ph r > 8.5 then Some ''pH too high - water is alkaline'' else None)
   \<and> map_of (validate_reading (float_reading r)) TDS =
     (if tds r > 600 then Some ''TDS too high - excessive dissolved solids''
      else if tds r < 50 then Some ''TDS too low - may lack essential minerals'' else None)
   \<and> map_of (validate_reading (float_reading r)) Turbidity =
     (if turbidity r > 1.0 then Some ''Turbidity too high - water appears cloudy'' else None)
   \<and> map_of (validate_reading (float_reading r)) ORP =
     (if orp r < 200 then Some ''ORP too low - poor disinfection potential''
      else if orp r > 800 then Some ''ORP too high - over-oxidized water'' else None)
   \<and> map_of (validate_reading (float_reading r)) Temperature = None
   \<and> (f_ph x = NaN \<longrightarrow> map_of (validate_reading x) PH = None)
   \<and> (f_tds x = NaN \<longrightarrow> map_of (validate_reading x) TDS = None)
   \<and> (f_turbidity x = NaN \<longrightarrow> map_of (validate_reading x) Turbidity = None)
   \<and> (f_orp x = NaN \<longrightarrow> map_of (validate_reading x) ORP = None)"
  by (simp add: validate_reading_lookup float_reading_def)

theorem C3_validator_never_fails_witness:
  "map_of (validate_reading (float_reading (clean_reading\<lparr>ph := 9\<rparr>))) PH
     = Some ''pH too high - water is alkaline''
   \<and> map_of (validate_reading nan_reading) PH = None
   \<and> map_of (validate_reading nan_reading) TDS = None
   \<and> map_of (validate_reading nan_reading) Turbidity = None
   \<and> map_of (validate_reading nan_reading) ORP = None"
  using C3_validator_never_fails [of "clean_reading\<lparr>ph := 9\<rparr>" nan_reading]
  by (simp add: nan_reading_def)

section \<open>Parsing a sensor response\<close>

lemma pair_ok_split:
  "pair_ok fl pair \<longleftrightarrow>
     (\<exists>key val v. split_on CHR '':'' pair = [key, val] \<and> fl (strip val) = Some v)"
  by (auto simp: pair_ok_def split: list.splits)

lemma parse_pairs_None_iff:
  "parse_pairs fl pairs data = None \<longleftrightarrow> (\<exists>pair \<in> set pairs. \<not> pair_ok fl pair)"
proof (induction pairs arbitrary: data)
  case Nil
  then show ?case by simp
next
  case (Cons pair pairs)
  show ?case
  proof (cases "pair_ok fl pair")
    case True
    then obtain key val v where "split_on CHR '':'' pair = [key, val]" "fl (strip val) = Some v"
      by (auto simp: pair_ok_split)
    then show ?thesis using True Cons.IH by simp
  next
    case False
    then have "parse_pairs fl (pair # pairs) data = None"
      by (auto simp: pair_ok_def split: list.splits option.splits)
    then show ?thesis using False by simp
  qed
qed

lemma parse_pairs_absent:
  "parse_pairs fl pairs data = Some data' \<Longrightarrow> k \<notin> set (map pair_key pairs) \<Longrightarrow>
   map_of data' k = map_of data k"
proof (induction pairs arbitrary: data)
  case Nil
  then show ?case by simp
next
  case (Cons pair pairs)
  from Cons.prems(1) obtain key val v where
    sp: "split_on CHR '':'' pair = [key, val]" and fv: "fl (strip val) = Some v"
    and rest: "parse_pairs fl pairs (AList.update (lower (strip key)) v data) = Some data'"
    by (auto split: list.splits option.splits)
  have "k \<noteq> lower (strip key)"
    using Cons.prems(2) sp by (simp add: pair_key_def)
  moreover have "k \<notin> set (map pair_key pairs)"
    using Cons.prems(2) by simp
  ultimately show ?case
    using Cons.IH [OF rest] by (simp add: update_conv')
qed

lemma dict_get_absent: "map_of data k = None \<Longrightarrow> dict_get data k dflt = dflt"
  by (simp add: dict_get_def)

lemma parsed_default:
  assumes "parse_pairs fl (split_on CHR '','' response) [] = Some data"
    and "k \<notin> set (response_keys response)"
  shows "dict_get data k dflt = dflt"
  using parse_pairs_absent [OF assms(1), of k] assms(2)
  by (simp add: response_keys_def dict_get_absent)

text \<open>
  C10: the parser returns \<open>None\<close> exactly when some pair of the response does not split
  into a key and a value that \<^verbatim>\<open>float\<close> accepts; when it returns a reading, every
  field whose key the response does not mention holds its default (tds 0.0, ph 7.0,
  orp 0.0, turbidity 0.0, temperature 20.0).
\<close>

theorem C10_parser_defaults:
  "(parse_sensor_response float now response = None \<longleftrightarrow>
      (\<exists>pair \<in> set (split_on CHR '','' response). \<not> pair_ok float pair))
   \<and> (parse_sensor_response float now response = Some r \<longrightarrow>
        (''tds'' \<notin> set (response_keys response) \<longrightarrow> f_tds r = Finite 0.0)
      \<and> (''ph'' \<notin> set (response_keys response) \<longrightarrow> f_ph r = Finite 7.0)
      \<and> (''orp'' \<notin> set (response_keys response) \<longrightarrow> f_orp r = Finite 0.0)
      \<and> (''turb'' \<notin> set (response_keys response) \<longrightarrow> f_turbidity r = Finite 0.0)
      \<and> (''temp'' \<notin> set (response_keys response) \<longrightarrow> f_temperature r = Finite 20.0))"
proof -
  have none: "parse_sensor_response float now response = None \<longleftrightarrow>
      (\<exists>pair \<in> set (split_on CHR '','' response). \<not> pair_ok float pair)"
  proof -
    have "parse_sensor_response float now response = None \<longleftrightarrow>
        parse_pairs float (split_on CHR '','' response) [] = None"
      by (cases "parse_pairs float (split_on CHR '','' response) []")
         (simp_all add: parse_sensor_response_def)
    then show ?thesis
      by (simp only: parse_pairs_None_iff)
  qed
  have some: "parse_sensor_response float now response = Some r \<longrightarrow>
        (''tds'' \<notin> set (response_keys response) \<longrightarrow> f_tds r = Finite 0.0)
      \<and> (''ph'' \<notin> set (response_keys response) \<longrightarrow> f_ph r = Finite 7.0)
      \<and> (''orp'' \<notin> set (response_keys response) \<longrightarrow> f_orp r = Finite 0.0)
      \<and> (''turb'' \<notin> set (response_keys response) \<longrightarrow> f_turbidity r = Finite 0.0)
      \<and> (''temp'' \<notin> set (response_keys response) \<longrightarrow> f_temperature r = Finite 20.0)"
  proof
    assume "parse_sensor_response float now response = Some r"
    then obtain data where d: "parse_pairs float (split_on CHR '','' response) [] = Some data"
      and r: "r = \<lparr>f_timestamp = now,
                f_tds = dict_get data ''tds'' (Finite 0.0),
                f_ph = dict_get data ''ph'' (Finite 7.0),
                f_orp = dict_get data ''orp'' (Finite 0.0),
                f_turbidity = dict_get data ''turb'' (Finite 0.0),
                f_temperature = dict_get data ''temp'' (Finite 20.0)\<rparr>"
      by (auto simp: parse_sensor_response_def split: option.splits)
    show "(''tds'' \<notin> set (response_keys response) \<longrightarrow> f_tds r = Finite 0.0)
      \<and> (''ph'' \<notin> set (response_keys response) \<longrightarrow> f_ph r = Finite 7.0)
      \<and> (''orp'' \<notin> set (response_keys response) \<longrightarrow> f_orp r = Finite 0.0)
      \<and> (''turb'' \<notin> set (response_keys response) \<longrightarrow> f_turbidity r = Finite 0.0)
      \<and> (''temp'' \<notin> set (response_keys response) \<longrightarrow> f_temperature r = Finite 20.0)"
      unfolding r using parsed_default [OF d] by simp
  qed
  from none some show ?thesis by blast
qed

lemma demo_keys: "response_keys ''TDS:250.5, pH : 7.2 '' = [''tds'', ''ph'']"
  by (simp add: response_keys_def pair_key_def lower_def lower_char_def upper_latin_def
      lower_latin_def strip_def is_space_def)

lemma demo_parse:
  "parse_sensor_response float_demo 5 ''TDS:250.5, pH : 7.2 '' =
     Some \<lparr>f_timestamp = 5, f_tds = Finite 250.5, f_ph = Finite 7.2, f_orp = Finite 0,
           f_turbidity = Finite 0, f_temperature = Finite 20\<rparr>"
  by (simp add: parse_sensor_response_def lower_def lower_char_def upper_latin_def
      lower_latin_def strip_def is_space_def float_demo_def dict_get_def)

text \<open>A no-break space after the key is stripped, so the key is read.\<close>

lemma demo_no_break_space:
  "parse_sensor_response float_demo 5 (''pH'' @ [CHR 0xA0] @ '':7.2'') =
     Some \<lparr>f_timestamp = 5, f_tds = Finite 0, f_ph = Finite 7.2, f_orp = Finite 0,
           f_turbidity = Finite 0, f_temperature = Finite 20\<rparr>"
  by (simp add: parse_sensor_response_def lower_def lower_char_def upper_latin_def
      lower_latin_def strip_def is_space_def float_demo_def dict_get_def)

lemma demo_bad_pair: "\<not> pair_ok float_demo ''pH''"
  by (simp add: pair_ok_def)

theorem C10_parser_defaults_witness:
  "parse_sensor_response float_demo 5 ''TDS:250.5,pH'' = None
   \<and> parse_sensor_response float_demo 5 ''TDS:250.5, pH : 7.2 '' =
       Some \<lparr>f_timestamp = 5, f_tds = Finite 250.5, f_ph = Finite 7.2, f_orp = Finite 0,
             f_turbidity = Finite 0, f_temperature = Finite 20\<rparr>
   \<and> ''orp'' \<notin> set (response_keys ''TDS:250.5, pH : 7.2 '')
   \<and> f_orp \<lparr>f_timestamp = 5, f_tds = Finite 250.5, f_ph = Finite 7.2, f_orp = Finite 0,
             f_turbidity = Finite 0, f_temperature = Finite 20\<rparr> = Finite 0.0"
proof -
  have bad: "\<exists>pair \<in> set (split_on CHR '','' ''TDS:250.5,pH''). \<not> pair_ok float_demo pair"
    using demo_bad_pair by simp
  have absent: "''orp'' \<notin> set (response_keys ''TDS:250.5, pH : 7.2 '')"
    by (simp add: demo_keys)
  show ?thesis
    using C10_parser_defaults [of float_demo 5 "''TDS:250.5,pH''"] bad
      C10_parser_defaults [of float_demo 5 "''TDS:250.5, pH : 7.2 ''"
        "\<lparr>f_timestamp = 5, f_tds = Finite 250.5, f_ph = Finite 7.2, f_orp = Finite 0,
          f_turbidity = Finite 0, f_temperature = Finite 20\<rparr>"]
      demo_parse absent
    by blast
qed

end
